theory Spec2Isabelle
  imports Main
begin

section \<open>hyper-ops: the reconciler of \<^verbatim>\<open>controllers/hyperops_controller.go\<close>\<close>

text \<open>
  The model follows the newer of the two versions of the controller kept in
  \<^verbatim>\<open>hyperops_controller.go\<close> (the one that declares \<^verbatim>\<open>hyperOpsLabel\<close> and
  \<^verbatim>\<open>setupClusterConfig\<close>) and \<^verbatim>\<open>controllers/utils.go\<close>.

  Go values are modelled as follows.
  \<^item> \<^verbatim>\<open>[]byte\<close> and \<^verbatim>\<open>string\<close> are \<open>string\<close> (a list of bytes).
  \<^item> An \<^verbatim>\<open>error\<close> is a value of the datatype \<open>error\<close>; \<^verbatim>\<open>nil\<close> is \<open>None\<close>.
    A run-time panic is kept as the error \<open>Panic\<close>: every caller in this
    program hands a non-nil error on unchanged.
  \<^item> \<^verbatim>\<open>client.Client\<close> is an interface. Its implementation is a parameter
    (\<open>api\<close>): a function from a call and the state of everything behind the
    interface to a response and a new such state. Every call made through the
    interface is appended to \<open>trace\<close>.
  \<^item> The package-level variable \<^verbatim>\<open>gitOpsNamespace\<close> is a field of the state.
  \<^item> A \<^verbatim>\<open>map[string]string\<close> held by the reconciler is a reference into
    \<open>heap\<close>; \<open>None\<close> is the nil map.
\<close>

subsection \<open>Constants\<close>

type_synonym bytes = string

definition hyperOpsLabel :: string where
  "hyperOpsLabel = ''hyper-ops.cloudmonkey.org''"

definition argoCDSecretTypeLabel :: string where
  "argoCDSecretTypeLabel = ''argocd.argoproj.io/secret-type''"

definition argoCDSecretTypeCluster :: string where
  "argoCDSecretTypeCluster = ''cluster''"

definition hostedClusterServiceAccountName :: string where
  "hostedClusterServiceAccountName = ''hyper-ops-admin''"

definition hostedClusterServiceAccountNamespace :: string where
  "hostedClusterServiceAccountNamespace = ''kube-system''"

definition hyperOpsEnabledLabel :: string where
  "hyperOpsEnabledLabel = hyperOpsLabel @ ''/enabled''"

definition hyperOpsGitopsNamespaceLabel :: string where
  "hyperOpsGitopsNamespaceLabel = hyperOpsLabel @ ''/gitops-namespace''"

text \<open>The value \<^verbatim>\<open>gitOpsNamespace\<close> is initialised with.\<close>

definition gitOpsNamespace_default :: string where
  "gitOpsNamespace_default = ''openshift-gitops''"

definition hyperOpsTypeLabel :: string where
  "hyperOpsTypeLabel = ''hyper-ops.cloudmonkey.org/type''"

text \<open>\<^verbatim>\<open>corev1.ServiceAccountNameKey\<close>, \<^verbatim>\<open>corev1.SecretTypeOpaque\<close> and
  \<^verbatim>\<open>corev1.SecretTypeServiceAccountToken\<close>.\<close>

definition ServiceAccountNameKey :: string where
  "ServiceAccountNameKey = ''kubernetes.io/service-account.name''"

definition SecretTypeOpaque :: string where
  "SecretTypeOpaque = ''Opaque''"

definition SecretTypeServiceAccountToken :: string where
  "SecretTypeServiceAccountToken = ''kubernetes.io/service-account-token''"

text \<open>\<^verbatim>\<open>strings.HasPrefix\<close>.\<close>

definition HasPrefix :: "string \<Rightarrow> string \<Rightarrow> bool" where
  "HasPrefix s p \<longleftrightarrow> length p \<le> length s \<and> take (length p) s = p"

subsection \<open>Errors\<close>

datatype error =
    NotFound
  | Conflict
  | Failure string
  | ErrWaitTimeout
  | Errorf string
  | Panic string

text \<open>\<^verbatim>\<open>client.IgnoreNotFound\<close>, applied to a non-nil error.\<close>

definition IgnoreNotFound :: "error \<Rightarrow> error option" where
  "IgnoreNotFound e = (if e = NotFound then None else Some e)"

subsection \<open>Objects\<close>

datatype kind = HostedClusterKind | SecretKind | ServiceAccountKind | ClusterRoleBindingKind

text \<open>
  One record stands for the four object types the program handles, as they
  travel through the client; a field a type does not have stays empty.
  \<open>Deleting\<close> is \<^verbatim>\<open>DeletionTimestamp != nil\<close>.
\<close>

record object =
  Kind :: kind
  Name :: string
  Namespace :: string
  Labels :: "string \<rightharpoonup> string"
  Annotations :: "string \<rightharpoonup> string"
  Deleting :: bool
  Data :: "string \<rightharpoonup> bytes"
  Type :: string
  Subjects :: "(string \<times> string \<times> string) list"
  RoleRef :: "string \<times> string \<times> string"

definition new_object :: "kind \<Rightarrow> string \<Rightarrow> string \<Rightarrow> object" where
  "new_object k ns n =
     \<lparr>Kind = k, Name = n, Namespace = ns, Labels = Map.empty, Annotations = Map.empty,
      Deleting = False, Data = Map.empty, Type = [], Subjects = [], RoleRef = ([], [], [])\<rparr>"

text \<open>Reading a \<^verbatim>\<open>map[string][]byte\<close>: a missing key gives the nil slice.\<close>

definition bytes_at :: "(string \<rightharpoonup> bytes) \<Rightarrow> string \<Rightarrow> bytes" where
  "bytes_at m k = (case m k of None \<Rightarrow> [] | Some b \<Rightarrow> b)"

text \<open>The fetched \<^verbatim>\<open>HostedCluster\<close> as the reconciler holds it: its label
  map is a Go map, hence a reference.\<close>

record HostedCluster =
  hc_Name :: string
  hc_Namespace :: string
  hc_Labels :: "nat option"
  hc_Deleting :: bool

record TLSClientConfig =
  CAData :: string

record ClusterConfig =
  BearerToken :: string
  TLSClientConfig :: TLSClientConfig

record Cluster =
  Cluster_Name :: string
  Cluster_Server :: string
  Cluster_Config :: ClusterConfig
  Cluster_HostedCluster :: "HostedCluster option"

text \<open>The part of \<^verbatim>\<open>api.Config\<close> (a kubeconfig) the program reads.\<close>

record NamedCluster =
  nc_Name :: string
  nc_Server :: string

record Config =
  Clusters :: "NamedCluster list"

subsection \<open>JSON and base64\<close>

datatype json = JString string | JObject "(string \<times> json) list"

text \<open>What \<^verbatim>\<open>json.Marshal\<close> encodes for a \<^verbatim>\<open>ClusterConfig\<close>: the struct tags
  give the member names.\<close>

definition ClusterConfig_json :: "ClusterConfig \<Rightarrow> json" where
  "ClusterConfig_json c =
     JObject [(''bearerToken'', JString (BearerToken c)),
              (''tlsClientConfig'', JObject [(''caData'', JString (CAData (TLSClientConfig c)))])]"

text \<open>\<^verbatim>\<open>base64.URLEncoding.EncodeToString\<close>: the URL-safe alphabet of RFC 4648,
  padded with \<^verbatim>\<open>=\<close>.\<close>

definition encodeURL :: string where
  "encodeURL = ''ABCDEFGHIJKLMNOPQRSTUVWXYZabcdefghijklmnopqrstuvwxyz0123456789-_''"

definition b64digit :: "nat \<Rightarrow> char" where
  "b64digit i = encodeURL ! (i mod 64)"

fun EncodeToString_nat :: "nat list \<Rightarrow> string" where
  "EncodeToString_nat [] = []"
| "EncodeToString_nat [a] =
     [b64digit (a div 4), b64digit ((a mod 4) * 16), CHR ''='', CHR ''='']"
| "EncodeToString_nat [a, b] =
     [b64digit (a div 4), b64digit ((a mod 4) * 16 + b div 16),
      b64digit ((b mod 16) * 4), CHR ''='']"
| "EncodeToString_nat (a # b # c # r) =
     [b64digit (a div 4), b64digit ((a mod 4) * 16 + b div 16),
      b64digit ((b mod 16) * 4 + c div 64), b64digit (c mod 64)] @ EncodeToString_nat r"

definition EncodeToString :: "bytes \<Rightarrow> string" where
  "EncodeToString bs = EncodeToString_nat (map of_char bs)"

subsection \<open>The client, the collaborators and the state\<close>

datatype client = InCluster | ForKubeConfig bytes

datatype call =
    Get client kind string string
  | Create client object
  | Update client object
  | Delete client object

text \<open>
  The collaborators outside the repository:
  \<^item> \<open>api\<close>: the implementation behind \<^verbatim>\<open>client.Client\<close>;
  \<^item> \<open>yamlUnmarshal\<close>: \<^verbatim>\<open>yaml.Unmarshal\<close> into an \<^verbatim>\<open>api.Config\<close>;
  \<^item> \<open>newClient\<close>: \<^verbatim>\<open>clientcmd.RESTConfigFromKubeConfig\<close>, \<^verbatim>\<open>AddToScheme\<close> and
    \<^verbatim>\<open>client.New\<close>, which fail or give a client for the kubeconfig;
  \<^item> \<open>jsonEncode\<close>: the byte encoding \<^verbatim>\<open>json.Marshal\<close> produces.
\<close>

record 'w env =
  api :: "call \<Rightarrow> 'w \<Rightarrow> (error + object) \<times> 'w"
  yamlUnmarshal :: "bytes \<Rightarrow> error + Config"
  newClient :: "bytes \<Rightarrow> error option"
  jsonEncode :: "json \<Rightarrow> bytes"

record 'w state =
  world :: 'w
  trace :: "call list"
  gitOpsNamespace :: string
  heap :: "nat \<Rightarrow> (string \<rightharpoonup> string)"
  nxt :: nat

definition init_state :: "'w \<Rightarrow> 'w state" where
  "init_state w =
     \<lparr>world = w, trace = [], gitOpsNamespace = gitOpsNamespace_default,
      heap = (\<lambda>_. Map.empty), nxt = 0\<rparr>"

text \<open>The kind a call is about: the Go type of the object passed to the client.\<close>

fun call_kind :: "call \<Rightarrow> kind" where
  "call_kind (Get c k ns n) = k"
| "call_kind (Create c ob) = Kind ob"
| "call_kind (Update c ob) = Kind ob"
| "call_kind (Delete c ob) = Kind ob"

text \<open>One call through the client interface. The response is decoded into
  the typed Go object the caller passed, so its kind is that of the call.\<close>

definition invoke :: "'w env \<Rightarrow> call \<Rightarrow> 'w state \<Rightarrow> (error + object) \<times> 'w state" where
  "invoke env c s =
     (case api env c (world s) of
        (r, w') \<Rightarrow>
          (case r of Inl e \<Rightarrow> Inl e | Inr ob \<Rightarrow> Inr (ob\<lparr>Kind := call_kind c\<rparr>),
           s\<lparr>world := w', trace := trace s @ [c]\<rparr>))"

text \<open>Allocation of a map literal.\<close>

definition alloc :: "(string \<rightharpoonup> string) \<Rightarrow> 'w state \<Rightarrow> nat \<times> 'w state" where
  "alloc m s = (nxt s, s\<lparr>heap := (heap s)(nxt s := m), nxt := Suc (nxt s)\<rparr>)"

text \<open>\<^verbatim>\<open>GetLabels()\<close> followed by a read: reading the nil map finds nothing.\<close>

definition labels_of :: "HostedCluster \<Rightarrow> 'w state \<Rightarrow> (string \<rightharpoonup> string)" where
  "labels_of hc s = (case hc_Labels hc of None \<Rightarrow> Map.empty | Some r \<Rightarrow> heap s r)"

definition heap_upd ::
  "nat \<Rightarrow> ((string \<rightharpoonup> string) \<Rightarrow> (string \<rightharpoonup> string)) \<Rightarrow> 'w state \<Rightarrow> 'w state" where
  "heap_upd r g s = s\<lparr>heap := (heap s)(r := g (heap s r))\<rparr>"

subsection \<open>\<^verbatim>\<open>controllerutil.CreateOrUpdate\<close> and \<^verbatim>\<open>wait.ExponentialBackoff\<close>\<close>

type_synonym OperationResult = string

definition OperationResultNone :: OperationResult where
  "OperationResultNone = ''unchanged''"

definition OperationResultCreated :: OperationResult where
  "OperationResultCreated = ''created''"

definition OperationResultUpdated :: OperationResult where
  "OperationResultUpdated = ''updated''"

definition errMutateKey :: error where
  "errMutateKey = Errorf ''MutateFn cannot mutate object name and/or object namespace''"

text \<open>
  The library function: fetch the object by the key of \<open>obj\<close>; when it is not
  found, run the mutate function on \<open>obj\<close> and create it; when it is found,
  run the mutate function on what was fetched and update it unless nothing
  changed. The object the caller passed by pointer is returned with the result.
  The mutate functions of this program return no error, so a mutate function
  is a function on objects.
\<close>

definition CreateOrUpdate ::
  "'w env \<Rightarrow> client \<Rightarrow> object \<Rightarrow> (object \<Rightarrow> object) \<Rightarrow> 'w state
     \<Rightarrow> ((error + OperationResult) \<times> object) \<times> 'w state" where
  "CreateOrUpdate env c obj f s =
     (case invoke env (Get c (Kind obj) (Namespace obj) (Name obj)) s of
        (Inl e, s1) \<Rightarrow>
          if e \<noteq> NotFound then ((Inl e, obj), s1)
          else
            (let obj1 = f obj in
             if Name obj1 \<noteq> Name obj \<or> Namespace obj1 \<noteq> Namespace obj
             then ((Inl errMutateKey, obj1), s1)
             else
               (case invoke env (Create c obj1) s1 of
                  (Inl e', s2) \<Rightarrow> ((Inl e', obj1), s2)
                | (Inr created, s2) \<Rightarrow> ((Inr OperationResultCreated, created), s2)))
      | (Inr existing, s1) \<Rightarrow>
          (let obj1 = f existing in
           if Name obj1 \<noteq> Name obj \<or> Namespace obj1 \<noteq> Namespace obj
           then ((Inl errMutateKey, obj1), s1)
           else if obj1 = existing then ((Inr OperationResultNone, obj1), s1)
           else
             (case invoke env (Update c obj1) s1 of
                (Inl e', s2) \<Rightarrow> ((Inl e', obj1), s2)
              | (Inr updated, s2) \<Rightarrow> ((Inr OperationResultUpdated, updated), s2))))"

text \<open>
  \<^verbatim>\<open>wait.ExponentialBackoff\<close>, without the sleeps: the condition is run at most
  \<open>Steps\<close> times; it stops at the first run that reports an error or success,
  and returns \<^verbatim>\<open>ErrWaitTimeout\<close> when the steps are used up.
\<close>

fun ExponentialBackoff ::
  "nat \<Rightarrow> ('s \<Rightarrow> (bool \<times> error option) \<times> 's) \<Rightarrow> 's \<Rightarrow> error option \<times> 's" where
  "ExponentialBackoff 0 condition s = (Some ErrWaitTimeout, s)"
| "ExponentialBackoff (Suc n) condition s =
     (case condition s of
        ((ok, err), s') \<Rightarrow>
          if err \<noteq> None \<or> ok then (err, s')
          else if n = 0 then (Some ErrWaitTimeout, s')
          else ExponentialBackoff n condition s')"

text \<open>\<^verbatim>\<open>retry.DefaultBackoff.Steps\<close>.\<close>

definition DefaultBackoff_Steps :: nat where
  "DefaultBackoff_Steps = 4"

subsection \<open>\<^verbatim>\<open>controllers/utils.go\<close>\<close>

text \<open>The closure passed to \<^verbatim>\<open>ExponentialBackoff\<close>. It works on the variable
  \<^verbatim>\<open>operationResult\<close>, the object and the state.\<close>

definition attempt ::
  "'w env \<Rightarrow> client \<Rightarrow> (object \<Rightarrow> object) \<Rightarrow> OperationResult \<times> object \<times> 'w state
     \<Rightarrow> (bool \<times> error option) \<times> (OperationResult \<times> object \<times> 'w state)" where
  "attempt env c f = (\<lambda>(operationResult, obj, s).
     (case CreateOrUpdate env c obj f s of
        ((Inr op, obj'), s') \<Rightarrow> ((True, None), (op, obj', s'))
      | ((Inl err, obj'), s') \<Rightarrow>
          if err \<noteq> Conflict then ((False, Some err), (OperationResultNone, obj', s'))
          else ((False, None), (OperationResultNone, obj', s'))))"

definition CreateOrUpdateWithRetries ::
  "'w env \<Rightarrow> client \<Rightarrow> object \<Rightarrow> (object \<Rightarrow> object) \<Rightarrow> 'w state
     \<Rightarrow> (OperationResult \<times> error option \<times> object) \<times> 'w state" where
  "CreateOrUpdateWithRetries env c obj f s =
     (case ExponentialBackoff DefaultBackoff_Steps (attempt env c f) ([], obj, s) of
        (updateErr, (operationResult, obj', s')) \<Rightarrow> ((operationResult, updateErr, obj'), s'))"

definition GetClientForCluster :: "'w env \<Rightarrow> bytes \<Rightarrow> error + client" where
  "GetClientForCluster env configBytes =
     (case newClient env configBytes of
        Some err \<Rightarrow> Inl err
      | None \<Rightarrow> Inr (ForKubeConfig configBytes))"

subsection \<open>\<^verbatim>\<open>controllers/hyperops_controller.go\<close>\<close>

definition getServerFromKubeConfig :: "'w env \<Rightarrow> object \<Rightarrow> error + string" where
  "getServerFromKubeConfig env kubeConfigSecret =
     (case yamlUnmarshal env (bytes_at (Data kubeConfigSecret) ''kubeconfig'') of
        Inl err \<Rightarrow> Inl err
      | Inr kubeconfig \<Rightarrow>
          (case Clusters kubeconfig of
             [] \<Rightarrow> Inl (Panic ''index out of range [0] with length 0'')
           | c # _ \<Rightarrow> Inr (nc_Server c)))"

text \<open>The first part of \<^verbatim>\<open>setupClusterConfig\<close>: the service account, the
  cluster role binding and the token secret are ensured, in this order. It
  returns the token secret as the last upsert left it.\<close>

definition ensureIdentityObjects :: "'w env \<Rightarrow> client \<Rightarrow> 'w state \<Rightarrow> (error + object) \<times> 'w state" where
  "ensureIdentityObjects env clnt s =
     (let sa = new_object ServiceAccountKind hostedClusterServiceAccountNamespace
                 hostedClusterServiceAccountName
      in case CreateOrUpdateWithRetries env clnt sa (\<lambda>ob. ob) s of
           ((op, Some err, sa'), s1) \<Rightarrow> (Inl err, s1)
         | ((op, None, sa'), s1) \<Rightarrow>
             (let crb = (new_object ClusterRoleBindingKind [] hostedClusterServiceAccountName)
                          \<lparr>Subjects := [(''ServiceAccount'', hostedClusterServiceAccountName,
                                         hostedClusterServiceAccountNamespace)],
                           RoleRef := (''ClusterRole'', ''cluster-admin'',
                                       ''rbac.authorization.k8s.io'')\<rparr>
              in case CreateOrUpdateWithRetries env clnt crb (\<lambda>ob. ob) s1 of
                   ((op, Some err, crb'), s2) \<Rightarrow> (Inl err, s2)
                 | ((op, None, crb'), s2) \<Rightarrow>
                     (let saTokenSecret =
                            (new_object SecretKind hostedClusterServiceAccountNamespace
                               (hostedClusterServiceAccountName @ ''-token''))
                              \<lparr>Annotations := [ServiceAccountNameKey \<mapsto> Name sa'],
                               Type := SecretTypeServiceAccountToken\<rparr>
                      in case CreateOrUpdateWithRetries env clnt saTokenSecret (\<lambda>ob. ob) s2 of
                           ((op, Some err, tok'), s3) \<Rightarrow> (Inl err, s3)
                         | ((op, None, tok'), s3) \<Rightarrow> (Inr tok', s3))))"

definition setupClusterConfig ::
  "'w env \<Rightarrow> client \<Rightarrow> string \<Rightarrow> string \<Rightarrow> HostedCluster option \<Rightarrow> 'w state
     \<Rightarrow> (error + Cluster) \<times> 'w state" where
  "setupClusterConfig env clnt server name hc s =
     (case ensureIdentityObjects env clnt s of
        (Inl err, s1) \<Rightarrow> (Inl err, s1)
      | (Inr tok, s1) \<Rightarrow>
          (case invoke env (Get clnt SecretKind ''kube-system'' ''hyper-ops-admin-token'') s1 of
             (Inl err, s2) \<Rightarrow> (Inl err, s2)
           | (Inr saTokenSecret, s2) \<Rightarrow>
               if length (bytes_at (Data saTokenSecret) ''token'') = 0
               then (Inl (Errorf ''token not found''), s2)
               else if length (bytes_at (Data saTokenSecret) ''ca.crt'') = 0
               then (Inl (Errorf ''ca.crt not found''), s2)
               else
                 (Inr \<lparr>Cluster_Name = name, Cluster_Server = server,
                       Cluster_Config =
                         \<lparr>BearerToken = bytes_at (Data saTokenSecret) ''token'',
                          TLSClientConfig =
                            \<lparr>CAData = EncodeToString (bytes_at (Data saTokenSecret) ''ca.crt'')\<rparr>\<rparr>,
                       Cluster_HostedCluster = hc\<rparr>, s2)))"

text \<open>The mutate function of \<^verbatim>\<open>createArgoCDClusterSecret\<close>.\<close>

definition argocdMutate ::
  "(string \<rightharpoonup> string) \<Rightarrow> Cluster \<Rightarrow> bytes \<Rightarrow> object \<Rightarrow> object" where
  "argocdMutate argocdClusterLabels cluster jsonConfig argocdCluster =
     argocdCluster
       \<lparr>Labels := argocdClusterLabels,
        Data := [''name'' \<mapsto> Cluster_Name cluster,
                 ''server'' \<mapsto> Cluster_Server cluster,
                 ''config'' \<mapsto> jsonConfig],
        Type := SecretTypeOpaque\<rparr>"

text \<open>\<^verbatim>\<open>json.Marshal\<close> returns no error for a struct of strings, so the
  error return after it is not a branch of the model.\<close>

definition createArgoCDClusterSecret ::
  "'w env \<Rightarrow> nat option \<Rightarrow> Cluster \<Rightarrow> 'w state \<Rightarrow> error option \<times> 'w state" where
  "createArgoCDClusterSecret env labels cluster s =
     (case labels of
        None \<Rightarrow> (Some (Panic ''assignment to entry in nil map''), s)
      | Some argocdClusterLabels \<Rightarrow>
          (let s1 = heap_upd argocdClusterLabels
                      (\<lambda>m. m(argoCDSecretTypeLabel \<mapsto> argoCDSecretTypeCluster)) s;
               jsonConfig = jsonEncode env (ClusterConfig_json (Cluster_Config cluster));
               argocdCluster = new_object SecretKind (gitOpsNamespace s1) (Cluster_Name cluster)
           in case CreateOrUpdateWithRetries env InCluster argocdCluster
                     (argocdMutate (heap s1 argocdClusterLabels) cluster jsonConfig) s1 of
                ((op, Some err, ob), s2) \<Rightarrow> (Some err, s2)
              | ((op, None, ob), s2) \<Rightarrow> (None, s2)))"

text \<open>The parts of \<^verbatim>\<open>Reconcile\<close>, in the order of the source.\<close>

text \<open>The object has a deletion timestamp: the secret is deleted.\<close>

definition deleteClusterSecret ::
  "'w env \<Rightarrow> string \<times> string \<Rightarrow> 'w state \<Rightarrow> error option \<times> 'w state" where
  "deleteClusterSecret env req s =
     (case invoke env (Delete InCluster (new_object SecretKind (gitOpsNamespace s) (snd req))) s of
        (Inl err, s1) \<Rightarrow> (IgnoreNotFound err, s1)
      | (Inr _, s1) \<Rightarrow> (None, s1))"

text \<open>The check for the gitops namespace label.\<close>

definition selectGitOpsNamespace :: "HostedCluster \<Rightarrow> 'w state \<Rightarrow> 'w state" where
  "selectGitOpsNamespace hc s =
     (case labels_of hc s hyperOpsGitopsNamespaceLabel of
        None \<Rightarrow> s
      | Some v \<Rightarrow> s\<lparr>gitOpsNamespace := v\<rparr>)"

text \<open>The local cluster: its configuration and its secret.\<close>

definition registerLocalCluster :: "'w env \<Rightarrow> 'w state \<Rightarrow> error option \<times> 'w state" where
  "registerLocalCluster env s =
     (case setupClusterConfig env InCluster ''https://kubernetes.default.svc''
             ''in-cluster-local'' None s of
        (Inl err, s1) \<Rightarrow> (Some err, s1)
      | (Inr localCluster, s1) \<Rightarrow>
          (case alloc [hyperOpsTypeLabel \<mapsto> ''local''] s1 of
             (localClusterLabels, s2) \<Rightarrow>
               createArgoCDClusterSecret env (Some localClusterLabels) localCluster s2))"

text \<open>The loop that deletes every key without the prefix from the map.\<close>

definition keepHyperOpsLabels :: "(string \<rightharpoonup> string) \<Rightarrow> (string \<rightharpoonup> string)" where
  "keepHyperOpsLabels m = (\<lambda>k. if HasPrefix k hyperOpsLabel then m k else None)"

text \<open>The hosted cluster, from the fetch of its kubeconfig secret on.
  \<^verbatim>\<open>hostedClusterLabels\<close> is the map of the fetched object itself.\<close>

definition provisionHostedCluster ::
  "'w env \<Rightarrow> string \<times> string \<Rightarrow> HostedCluster \<Rightarrow> 'w state \<Rightarrow> error option \<times> 'w state" where
  "provisionHostedCluster env req hc s =
     (case invoke env (Get InCluster SecretKind (fst req) (snd req @ ''-admin-kubeconfig'')) s of
        (Inl err, s1) \<Rightarrow> (IgnoreNotFound err, s1)
      | (Inr kubeConfigSecret, s1) \<Rightarrow>
          (case GetClientForCluster env (bytes_at (Data kubeConfigSecret) ''kubeconfig'') of
             Inl err \<Rightarrow> (Some err, s1)
           | Inr hostedClusterClient \<Rightarrow>
               (case getServerFromKubeConfig env kubeConfigSecret of
                  Inl err \<Rightarrow> (Some err, s1)
                | Inr server \<Rightarrow>
                    (case setupClusterConfig env hostedClusterClient server (hc_Name hc)
                            (Some hc) s1 of
                       (Inl err, s2) \<Rightarrow> (Some err, s2)
                     | (Inr hostedClusterConfig, s2) \<Rightarrow>
                         (case hc_Labels hc of
                            None \<Rightarrow> (Some (Panic ''assignment to entry in nil map''), s2)
                          | Some hostedClusterLabels \<Rightarrow>
                              (let s3 = heap_upd hostedClusterLabels keepHyperOpsLabels s2;
                                   s4 = heap_upd hostedClusterLabels
                                          (\<lambda>m. m(hyperOpsTypeLabel \<mapsto> ''hosted'')) s3
                               in createArgoCDClusterSecret env (Some hostedClusterLabels)
                                    hostedClusterConfig s4))))))"

text \<open>\<^verbatim>\<open>Reconcile\<close> after the fetch of the hosted cluster.\<close>

definition reconcileFetched ::
  "'w env \<Rightarrow> string \<times> string \<Rightarrow> HostedCluster \<Rightarrow> 'w state \<Rightarrow> error option \<times> 'w state" where
  "reconcileFetched env req hc s =
     (if hc_Deleting hc then deleteClusterSecret env req s
      else
        (case registerLocalCluster env (selectGitOpsNamespace hc s) of
           (Some err, s1) \<Rightarrow> (Some err, s1)
         | (None, s1) \<Rightarrow>
             if labels_of hc s1 hyperOpsEnabledLabel = Some ''false'' then (None, s1)
             else provisionHostedCluster env req hc s1))"

text \<open>The fetched object becomes the Go value \<^verbatim>\<open>hc\<close>: a label map is
  allocated for its labels, and no labels give the nil map.\<close>

definition decodeHostedCluster :: "object \<Rightarrow> 'w state \<Rightarrow> HostedCluster \<times> 'w state" where
  "decodeHostedCluster ob s =
     (if Labels ob = Map.empty
      then (\<lparr>hc_Name = Name ob, hc_Namespace = Namespace ob, hc_Labels = None,
             hc_Deleting = Deleting ob\<rparr>, s)
      else
        (case alloc (Labels ob) s of
           (r, s') \<Rightarrow>
             (\<lparr>hc_Name = Name ob, hc_Namespace = Namespace ob, hc_Labels = Some r,
               hc_Deleting = Deleting ob\<rparr>, s')))"

text \<open>\<^verbatim>\<open>Reconcile\<close>; the request is the pair of namespace and name. The
  \<^verbatim>\<open>ctrl.Result\<close> it returns is always empty, so the result is the error.\<close>

definition Reconcile ::
  "'w env \<Rightarrow> string \<times> string \<Rightarrow> 'w state \<Rightarrow> error option \<times> 'w state" where
  "Reconcile env req s =
     (case invoke env (Get InCluster HostedClusterKind (fst req) (snd req)) s of
        (Inl err, s1) \<Rightarrow> (IgnoreNotFound err, s1)
      | (Inr ob, s1) \<Rightarrow>
          (case decodeHostedCluster ob s1 of
             (hc, s2) \<Rightarrow> reconcileFetched env req hc s2))"

section \<open>Observing a run\<close>

text \<open>The calls made between two states of one run.\<close>

definition issued :: "'w state \<Rightarrow> 'w state \<Rightarrow> call list" where
  "issued s s' = drop (length (trace s)) (trace s')"

fun call_client :: "call \<Rightarrow> client" where
  "call_client (Get c k ns n) = c"
| "call_client (Create c ob) = c"
| "call_client (Update c ob) = c"
| "call_client (Delete c ob) = c"

text \<open>Between \<open>s\<close> and \<open>s'\<close> only calls with property \<open>P\<close> were made.\<close>

definition calls :: "(call \<Rightarrow> bool) \<Rightarrow> 'w state \<Rightarrow> 'w state \<Rightarrow> bool" where
  "calls P s s' \<longleftrightarrow> (\<exists>t. trace s' = trace s @ t \<and> (\<forall>x \<in> set t. P x))"

text \<open>The variables of the reconciler are as they were.\<close>

definition quiet :: "'w state \<Rightarrow> 'w state \<Rightarrow> bool" where
  "quiet s s' \<longleftrightarrow> heap s' = heap s \<and> gitOpsNamespace s' = gitOpsNamespace s \<and> nxt s' = nxt s"

definition kind_pres :: "(object \<Rightarrow> object) \<Rightarrow> bool" where
  "kind_pres f \<longleftrightarrow> (\<forall>x. Kind (f x) = Kind x)"

text \<open>The calls an upsert of the object of kind \<open>k\<close> named \<open>n\<close> in \<open>ns\<close> makes
  with the mutate function \<open>f\<close>.\<close>

definition upsert_call ::
  "client \<Rightarrow> kind \<Rightarrow> string \<Rightarrow> string \<Rightarrow> (object \<Rightarrow> object) \<Rightarrow> call \<Rightarrow> bool" where
  "upsert_call c k ns n f x \<longleftrightarrow>
     (case x of
        Get c' k' ns' n' \<Rightarrow> c' = c \<and> k' = k \<and> ns' = ns \<and> n' = n
      | Create c' ob \<Rightarrow> c' = c \<and> Kind ob = k \<and> Namespace ob = ns \<and> Name ob = n \<and> ob \<in> range f
      | Update c' ob \<Rightarrow> c' = c \<and> Kind ob = k \<and> Namespace ob = ns \<and> Name ob = n \<and> ob \<in> range f
      | Delete c' ob \<Rightarrow> False)"

definition loop_inv ::
  "kind \<Rightarrow> string \<Rightarrow> string \<Rightarrow> OperationResult \<times> object \<times> 'w state \<Rightarrow> bool" where
  "loop_inv k ns n x \<longleftrightarrow>
     Kind (fst (snd x)) = k \<and> Namespace (fst (snd x)) = ns \<and> Name (fst (snd x)) = n"

definition loop_rel ::
  "(call \<Rightarrow> bool) \<Rightarrow> OperationResult \<times> object \<times> 'w state
     \<Rightarrow> OperationResult \<times> object \<times> 'w state \<Rightarrow> bool" where
  "loop_rel P x y \<longleftrightarrow> calls P (snd (snd x)) (snd (snd y)) \<and> quiet (snd (snd x)) (snd (snd y))"

fun call_key :: "call \<Rightarrow> string \<times> string" where
  "call_key (Get c k ns n) = (ns, n)"
| "call_key (Create c ob) = (Namespace ob, Name ob)"
| "call_key (Update c ob) = (Namespace ob, Name ob)"
| "call_key (Delete c ob) = (Namespace ob, Name ob)"

text \<open>The three objects \<^verbatim>\<open>setupClusterConfig\<close> ensures, by kind and key.\<close>

definition identity_objects :: "(kind \<times> string \<times> string) set" where
  "identity_objects =
     {(ServiceAccountKind, hostedClusterServiceAccountNamespace, hostedClusterServiceAccountName),
      (ClusterRoleBindingKind, [], hostedClusterServiceAccountName),
      (SecretKind, hostedClusterServiceAccountNamespace,
         hostedClusterServiceAccountName @ ''-token'')}"

text \<open>The calls of \<^verbatim>\<open>setupClusterConfig\<close> go through the client it is given and
  are about these three objects; none is a delete.\<close>

definition bootstrap_call :: "client \<Rightarrow> call \<Rightarrow> bool" where
  "bootstrap_call clnt x \<longleftrightarrow>
     call_client x = clnt \<and> (call_kind x, call_key x) \<in> identity_objects
     \<and> (\<forall>c ob. x \<noteq> Delete c ob)"

text \<open>The label map of the fetched hosted cluster is allocated.\<close>

definition allocated :: "HostedCluster \<Rightarrow> 'w state \<Rightarrow> bool" where
  "allocated hc s \<longleftrightarrow> (case hc_Labels hc of None \<Rightarrow> True | Some r \<Rightarrow> r < nxt s)"

text \<open>The state of the loop in \<^verbatim>\<open>ExponentialBackoff\<close> after \<open>n\<close> runs of the
  condition.\<close>

primrec after :: "('s \<Rightarrow> 'r \<times> 's) \<Rightarrow> nat \<Rightarrow> 's \<Rightarrow> 's" where
  "after condition 0 x = x"
| "after condition (Suc n) x = after condition n (snd (condition x))"

text \<open>The variables of \<^verbatim>\<open>CreateOrUpdateWithRetries\<close> after \<open>n\<close> attempts, and
  what \<^verbatim>\<open>CreateOrUpdate\<close> returns in attempt \<open>n\<close> (counted from 0).\<close>

definition attempts_state ::
  "'w env \<Rightarrow> client \<Rightarrow> (object \<Rightarrow> object) \<Rightarrow> nat \<Rightarrow> object \<Rightarrow> 'w state
     \<Rightarrow> OperationResult \<times> object \<times> 'w state" where
  "attempts_state env c f n obj s = after (attempt env c f) n ([], obj, s)"

definition attempt_result ::
  "'w env \<Rightarrow> client \<Rightarrow> (object \<Rightarrow> object) \<Rightarrow> nat \<Rightarrow> object \<Rightarrow> 'w state
     \<Rightarrow> error + OperationResult" where
  "attempt_result env c f n obj s =
     (case attempts_state env c f n obj s of
        (op, obj', s') \<Rightarrow> fst (fst (CreateOrUpdate env c obj' f s')))"

section \<open>A scripted client\<close>

text \<open>
  A client for the examples: it answers a fetch of the hosted cluster, of the
  kubeconfig secret of the cluster \<^verbatim>\<open>foo\<close> and of the token secret from its
  fields, finds nothing else, and lets the next writes fail as \<open>fk_writes\<close>
  lists.
\<close>

record fake =
  fk_hc :: "error + object"
  fk_kubeconfig :: "error + object"
  fk_token :: "string \<rightharpoonup> bytes"
  fk_delete :: "error option"
  fk_writes :: "error option list"

definition fake_write :: "object \<Rightarrow> fake \<Rightarrow> (error + object) \<times> fake" where
  "fake_write ob w =
     (case fk_writes w of
        [] \<Rightarrow> (Inr ob, w)
      | None # r \<Rightarrow> (Inr ob, w\<lparr>fk_writes := r\<rparr>)
      | Some e # r \<Rightarrow> (Inl e, w\<lparr>fk_writes := r\<rparr>))"

fun fake_api :: "call \<Rightarrow> fake \<Rightarrow> (error + object) \<times> fake" where
  "fake_api (Get c k ns n) w =
     (if k = HostedClusterKind then fk_hc w
      else if k = SecretKind \<and> n = ''hyper-ops-admin-token''
        then Inr ((new_object SecretKind ns n)\<lparr>Data := fk_token w\<rparr>)
      else if k = SecretKind \<and> n = ''foo-admin-kubeconfig'' then fk_kubeconfig w
      else Inl NotFound, w)"
| "fake_api (Create c ob) w = fake_write ob w"
| "fake_api (Update c ob) w = fake_write ob w"
| "fake_api (Delete c ob) w = (case fk_delete w of None \<Rightarrow> Inr ob | Some e \<Rightarrow> Inl e, w)"

definition fake_yaml :: "bytes \<Rightarrow> error + Config" where
  "fake_yaml b =
     (if b = ''kc'' then Inr \<lparr>Clusters = [\<lparr>nc_Name = ''foo'', nc_Server = ''https://foo:6443''\<rparr>]\<rparr>
      else if b = ''none'' then Inr \<lparr>Clusters = []\<rparr>
      else Inl (Failure ''yaml''))"

text \<open>A rendering of the one shape of JSON value the program encodes, without
  quotes and escapes.\<close>

definition fake_json :: "json \<Rightarrow> bytes" where
  "fake_json j =
     (case j of
        JObject [(k1, JString v1), (k2, JObject [(k3, JString v3)])] \<Rightarrow>
          ''{'' @ k1 @ '':'' @ v1 @ '','' @ k2 @ '':{'' @ k3 @ '':'' @ v3 @ ''}}''
      | _ \<Rightarrow> ''null'')"

definition fake_env :: "fake env" where
  "fake_env = \<lparr>api = fake_api, yamlUnmarshal = fake_yaml, newClient = (\<lambda>b. None),
                jsonEncode = fake_json\<rparr>"

definition foo_hc :: "(string \<rightharpoonup> string) \<Rightarrow> object" where
  "foo_hc ls = (new_object HostedClusterKind ''clusters'' ''foo'')\<lparr>Labels := ls\<rparr>"

definition foo_kubeconfig :: "bytes \<Rightarrow> object" where
  "foo_kubeconfig b =
     (new_object SecretKind ''clusters'' ''foo-admin-kubeconfig'')\<lparr>Data := [''kubeconfig'' \<mapsto> b]\<rparr>"

text \<open>A world in which every step of a reconcile of \<^verbatim>\<open>foo\<close> succeeds.\<close>

definition fake_world :: "(string \<rightharpoonup> string) \<Rightarrow> fake" where
  "fake_world ls =
     \<lparr>fk_hc = Inr (foo_hc ls), fk_kubeconfig = Inr (foo_kubeconfig ''kc''),
      fk_token = [''token'' \<mapsto> ''tok'', ''ca.crt'' \<mapsto> ''Man''],
      fk_delete = None, fk_writes = []\<rparr>"

definition sa0 :: object where
  "sa0 = new_object ServiceAccountKind ''kube-system'' ''hyper-ops-admin''"

text \<open>The token of the service account is not there yet.\<close>

definition token_missing :: "(string \<rightharpoonup> string) \<Rightarrow> fake" where
  "token_missing ls = (fake_world ls)\<lparr>fk_token := [''ca.crt'' \<mapsto> ''Man'']\<rparr>"

text \<open>The local cluster as \<^verbatim>\<open>setupClusterConfig\<close> returns it in that world, and
  the secret made from it in the default namespace.\<close>

definition local_cluster :: Cluster where
  "local_cluster =
     \<lparr>Cluster_Name = ''in-cluster-local'', Cluster_Server = ''https://kubernetes.default.svc'',
      Cluster_Config = \<lparr>BearerToken = ''tok'', TLSClientConfig = \<lparr>CAData = ''TWFu''\<rparr>\<rparr>,
      Cluster_HostedCluster = None\<rparr>"

definition local_secret :: object where
  "local_secret =
     (new_object SecretKind ''openshift-gitops'' ''in-cluster-local'')
       \<lparr>Labels := [''hyper-ops.cloudmonkey.org/type'' \<mapsto> ''local'',
                   ''argocd.argoproj.io/secret-type'' \<mapsto> ''cluster''],
        Data := [''name'' \<mapsto> ''in-cluster-local'',
                 ''server'' \<mapsto> ''https://kubernetes.default.svc'',
                 ''config'' \<mapsto> ''{bearerToken:tok,tlsClientConfig:{caData:TWFu}}''],
        Type := ''Opaque''\<rparr>"

text \<open>A state in which the map literal of the local cluster's labels is
  allocated.\<close>

definition local_state :: "fake state" where
  "local_state =
     (init_state (fake_world Map.empty))
       \<lparr>heap := (\<lambda>_. Map.empty)(0 := [''hyper-ops.cloudmonkey.org/type'' \<mapsto> ''local'']),
        nxt := 1\<rparr>"

text \<open>The calls of the local registration when the target namespace is \<open>ns\<close>.\<close>

definition local_call :: "string \<Rightarrow> call \<Rightarrow> bool" where
  "local_call ns x \<longleftrightarrow>
     bootstrap_call InCluster x
     \<or> (\<exists>cl j. upsert_call InCluster SecretKind ns ''in-cluster-local''
                  (argocdMutate [hyperOpsTypeLabel \<mapsto> ''local'',
                                 argoCDSecretTypeLabel \<mapsto> argoCDSecretTypeCluster] cl j) x)"

text \<open>The labels of the secret of a hosted cluster whose labels are \<open>m\<close>, and the
  calls of its provisioning.\<close>

definition hosted_labels :: "(string \<rightharpoonup> string) \<Rightarrow> (string \<rightharpoonup> string)" where
  "hosted_labels m =
     ((keepHyperOpsLabels m)(hyperOpsTypeLabel \<mapsto> ''hosted''))
       (argoCDSecretTypeLabel \<mapsto> argoCDSecretTypeCluster)"

definition hosted_call :: "string \<times> string \<Rightarrow> string \<Rightarrow> string \<Rightarrow> (string \<rightharpoonup> string) \<Rightarrow> call \<Rightarrow> bool" where
  "hosted_call req ns n m x \<longleftrightarrow>
     x = Get InCluster SecretKind (fst req) (snd req @ ''-admin-kubeconfig'')
     \<or> (\<exists>b. bootstrap_call (ForKubeConfig b) x)
     \<or> (\<exists>cl j. upsert_call InCluster SecretKind ns n (argocdMutate (hosted_labels m) cl j) x)"

text \<open>The request for \<^verbatim>\<open>foo\<close>, the Go value of the fetched hosted cluster with
  its label map at reference 0, and the state right after the fetch when the
  labels are \<open>ls\<close>.\<close>

definition foo_req :: "string \<times> string" where
  "foo_req = (''clusters'', ''foo'')"

definition foo_fetched :: HostedCluster where
  "foo_fetched = \<lparr>hc_Name = ''foo'', hc_Namespace = ''clusters'', hc_Labels = Some 0,
                   hc_Deleting = False\<rparr>"

definition fetched_state :: "(string \<rightharpoonup> string) \<Rightarrow> fake \<Rightarrow> fake state" where
  "fetched_state ls w =
     \<lparr>world = w, trace = [Get InCluster HostedClusterKind ''clusters'' ''foo''],
      gitOpsNamespace = gitOpsNamespace_default, heap = (\<lambda>_. Map.empty)(0 := ls), nxt = 1\<rparr>"

definition crb0 :: object where
  "crb0 =
     (new_object ClusterRoleBindingKind [] ''hyper-ops-admin'')
       \<lparr>Subjects := [(''ServiceAccount'', ''hyper-ops-admin'', ''kube-system'')],
        RoleRef := (''ClusterRole'', ''cluster-admin'', ''rbac.authorization.k8s.io'')\<rparr>"

text \<open>The object of a write.\<close>

fun call_object :: "call \<Rightarrow> object option" where
  "call_object (Get c k ns n) = None"
| "call_object (Create c ob) = Some ob"
| "call_object (Update c ob) = Some ob"
| "call_object (Delete c ob) = Some ob"

text \<open>Kind, namespace and name of the objects created or updated through the
  controller's own client.\<close>

fun local_write :: "call \<Rightarrow> (kind \<times> string \<times> string) list" where
  "local_write (Create c ob) = (if c = InCluster then [(Kind ob, Namespace ob, Name ob)] else [])"
| "local_write (Update c ob) = (if c = InCluster then [(Kind ob, Namespace ob, Name ob)] else [])"
| "local_write x = []"

text \<open>Label sets of \<^verbatim>\<open>foo\<close> for the examples.\<close>

definition disabled_labels :: "string \<rightharpoonup> string" where
  "disabled_labels = [''hyper-ops.cloudmonkey.org/enabled'' \<mapsto> ''false'']"

definition enabled_labels :: "string \<rightharpoonup> string" where
  "enabled_labels = [''hyper-ops.cloudmonkey.org/enabled'' \<mapsto> ''true'']"

text \<open>The hosted cluster is being deleted.\<close>

definition deleting_world :: "error option \<Rightarrow> fake" where
  "deleting_world e =
     (fake_world enabled_labels)
       \<lparr>fk_hc := Inr ((foo_hc enabled_labels)\<lparr>Deleting := True\<rparr>), fk_delete := e\<rparr>"

text \<open>A label from another tool on \<^verbatim>\<open>foo\<close>, a label of the team, and the
  override of the target namespace.\<close>

definition argocd_labels :: "string \<rightharpoonup> string" where
  "argocd_labels =
     [''hyper-ops.cloudmonkey.org/enabled'' \<mapsto> ''true'',
      ''argocd.argoproj.io/secret-type'' \<mapsto> ''repository'']"

definition team_labels :: "string \<rightharpoonup> string" where
  "team_labels =
     [''hyper-ops.cloudmonkey.org/enabled'' \<mapsto> ''true'', ''team'' \<mapsto> ''blue'']"

definition override_labels :: "string \<rightharpoonup> string" where
  "override_labels =
     [''hyper-ops.cloudmonkey.org/enabled'' \<mapsto> ''true'',
      ''hyper-ops.cloudmonkey.org/gitops-namespace'' \<mapsto> ''ns-a'']"

text \<open>The calls of a reconcile of \<^verbatim>\<open>foo\<close> in a world where every step succeeds
  and nothing exists yet but the token secrets: those of the local
  registration and those of the provisioning, when the target namespace is
  \<open>ns\<close> and the label map of \<^verbatim>\<open>foo\<close> holds \<open>m\<close>.\<close>

definition local_labels :: "string \<rightharpoonup> string" where
  "local_labels = [hyperOpsTypeLabel \<mapsto> ''local'', argoCDSecretTypeLabel \<mapsto> argoCDSecretTypeCluster]"

definition local_secret_in :: "string \<Rightarrow> object" where
  "local_secret_in ns =
     (new_object SecretKind ns ''in-cluster-local'')
       \<lparr>Labels := local_labels,
        Data := [''name'' \<mapsto> ''in-cluster-local'',
                 ''server'' \<mapsto> ''https://kubernetes.default.svc'',
                 ''config'' \<mapsto> ''{bearerToken:tok,tlsClientConfig:{caData:TWFu}}''],
        Type := ''Opaque''\<rparr>"

definition hosted_secret :: "string \<Rightarrow> (string \<rightharpoonup> string) \<Rightarrow> object" where
  "hosted_secret ns m =
     (new_object SecretKind ns ''foo'')
       \<lparr>Labels := hosted_labels m,
        Data := [''name'' \<mapsto> ''foo'',
                 ''server'' \<mapsto> ''https://foo:6443'',
                 ''config'' \<mapsto> ''{bearerToken:tok,tlsClientConfig:{caData:TWFu}}''],
        Type := ''Opaque''\<rparr>"

definition bootstrap_calls :: "client \<Rightarrow> call list" where
  "bootstrap_calls c =
     [Get c ServiceAccountKind ''kube-system'' ''hyper-ops-admin'',
      Create c sa0,
      Get c ClusterRoleBindingKind [] ''hyper-ops-admin'',
      Create c crb0,
      Get c SecretKind ''kube-system'' ''hyper-ops-admin-token'',
      Get c SecretKind ''kube-system'' ''hyper-ops-admin-token'']"

definition local_calls :: "string \<Rightarrow> call list" where
  "local_calls ns =
     bootstrap_calls InCluster
     @ [Get InCluster SecretKind ns ''in-cluster-local'', Create InCluster (local_secret_in ns)]"

definition hosted_calls :: "string \<Rightarrow> (string \<rightharpoonup> string) \<Rightarrow> call list" where
  "hosted_calls ns m =
     Get InCluster SecretKind ''clusters'' ''foo-admin-kubeconfig''
     # bootstrap_calls (ForKubeConfig ''kc'')
     @ [Get InCluster SecretKind ns ''foo'', Create InCluster (hosted_secret ns m)]"

text \<open>The world answers as \<open>fake_world\<close> does, whatever the hosted cluster is.\<close>

definition steady :: "fake \<Rightarrow> bool" where
  "steady w \<longleftrightarrow>
     fk_kubeconfig w = Inr (foo_kubeconfig ''kc'')
     \<and> fk_token w = [''token'' \<mapsto> ''tok'', ''ca.crt'' \<mapsto> ''Man'']
     \<and> fk_writes w = []"

text \<open>The Go value of the fetched hosted cluster \<^verbatim>\<open>foo\<close> with its label map at
  reference \<open>r\<close>.\<close>

definition foo_fetched_at :: "nat \<Rightarrow> HostedCluster" where
  "foo_fetched_at r = \<lparr>hc_Name = ''foo'', hc_Namespace = ''clusters'', hc_Labels = Some r,
                        hc_Deleting = False\<rparr>"

section \<open>Lemmas\<close>

lemmas consts_defs = hyperOpsLabel_def argoCDSecretTypeLabel_def argoCDSecretTypeCluster_def
  hostedClusterServiceAccountName_def hostedClusterServiceAccountNamespace_def
  hyperOpsEnabledLabel_def hyperOpsGitopsNamespaceLabel_def gitOpsNamespace_default_def
  hyperOpsTypeLabel_def ServiceAccountNameKey_def SecretTypeOpaque_def
  SecretTypeServiceAccountToken_def OperationResultNone_def OperationResultCreated_def
  OperationResultUpdated_def

lemmas fake_defs = fake_env_def fake_world_def fake_write_def fake_yaml_def fake_json_def
  foo_hc_def foo_kubeconfig_def init_state_def sa0_def token_missing_def local_cluster_def
  local_secret_def local_state_def foo_req_def foo_fetched_def fetched_state_def crb0_def
  disabled_labels_def enabled_labels_def deleting_world_def argocd_labels_def team_labels_def
  override_labels_def

lemmas upsert_defs = CreateOrUpdateWithRetries_def attempt_def CreateOrUpdate_def invoke_def
  new_object_def DefaultBackoff_Steps_def Let_def

lemmas reconcile_defs = Reconcile_def reconcileFetched_def decodeHostedCluster_def
  provisionHostedCluster_def registerLocalCluster_def selectGitOpsNamespace_def
  deleteClusterSecret_def createArgoCDClusterSecret_def setupClusterConfig_def
  ensureIdentityObjects_def alloc_def heap_upd_def labels_of_def GetClientForCluster_def
  getServerFromKubeConfig_def bytes_at_def IgnoreNotFound_def argocdMutate_def
  keepHyperOpsLabels_def HasPrefix_def

subsection \<open>Traces\<close>

lemma calls_refl: "calls P s s"
  by (simp add: calls_def)

lemma calls_trans: "calls P s s1 \<Longrightarrow> calls P s1 s2 \<Longrightarrow> calls P s s2"
  by (auto simp: calls_def)

lemma calls_mono: "calls P s s' \<Longrightarrow> (\<And>x. P x \<Longrightarrow> Q x) \<Longrightarrow> calls Q s s'"
  by (auto simp: calls_def)

lemma calls_issued: "calls P s s' \<Longrightarrow> x \<in> set (issued s s') \<Longrightarrow> P x"
  by (auto simp: calls_def issued_def)

lemma calls_trace: "calls P s s' \<Longrightarrow> trace s' = trace s @ issued s s'"
  by (auto simp: calls_def issued_def)

lemma issued_trans:
  "calls P s s1 \<Longrightarrow> calls Q s1 s2 \<Longrightarrow> issued s s2 = issued s s1 @ issued s1 s2"
  by (auto simp: calls_def issued_def)

lemma quiet_refl: "quiet s s"
  by (simp add: quiet_def)

lemma quiet_trans: "quiet s s1 \<Longrightarrow> quiet s1 s2 \<Longrightarrow> quiet s s2"
  by (simp add: quiet_def)

lemma invoke_calls: "invoke env c s = (r, s') \<Longrightarrow> P c \<Longrightarrow> calls P s s'"
  by (auto simp: invoke_def calls_def split: prod.splits)

lemma invoke_quiet: "invoke env c s = (r, s') \<Longrightarrow> quiet s s'"
  by (auto simp: invoke_def quiet_def split: prod.splits)

lemma invoke_kind: "invoke env c s = (Inr ob, s') \<Longrightarrow> Kind ob = call_kind c"
  by (auto simp: invoke_def split: prod.splits sum.splits)

lemma invoke_world:
  "api env c (world s) = (r, w') \<Longrightarrow>
   invoke env c s = (case r of Inl e \<Rightarrow> Inl e | Inr ob \<Rightarrow> Inr (ob\<lparr>Kind := call_kind c\<rparr>),
                     s\<lparr>world := w', trace := trace s @ [c]\<rparr>)"
  by (simp add: invoke_def)

lemma upsert_call_simps [simp]:
  "upsert_call c k ns n f (Get c' k' ns' n') \<longleftrightarrow> c' = c \<and> k' = k \<and> ns' = ns \<and> n' = n"
  "upsert_call c k ns n f (Create c' ob) \<longleftrightarrow>
     c' = c \<and> Kind ob = k \<and> Namespace ob = ns \<and> Name ob = n \<and> ob \<in> range f"
  "upsert_call c k ns n f (Update c' ob) \<longleftrightarrow>
     c' = c \<and> Kind ob = k \<and> Namespace ob = ns \<and> Name ob = n \<and> ob \<in> range f"
  "upsert_call c k ns n f (Delete c' ob) \<longleftrightarrow> False"
  by (simp_all add: upsert_call_def)

subsection \<open>The upsert\<close>

text \<open>One run of \<^verbatim>\<open>CreateOrUpdate\<close>: its calls are those of an upsert of the
  object, and when it fails with a conflict the object keeps its kind and key.\<close>

lemma CreateOrUpdate_frame:
  assumes run: "CreateOrUpdate env c obj f s = ((r, obj'), s')" and kp: "kind_pres f"
  shows "calls (upsert_call c (Kind obj) (Namespace obj) (Name obj) f) s s' \<and> quiet s s'
    \<and> (r = Inl Conflict \<longrightarrow>
         Kind obj' = Kind obj \<and> Namespace obj' = Namespace obj \<and> Name obj' = Name obj)"
proof -
  let ?P = "upsert_call c (Kind obj) (Namespace obj) (Name obj) f"
  obtain r1 s1 where g: "invoke env (Get c (Kind obj) (Namespace obj) (Name obj)) s = (r1, s1)"
    by force
  have c1: "calls ?P s s1" and q1: "quiet s s1"
    using g by (auto intro: invoke_calls invoke_quiet)
  have kf: "\<And>x. Kind (f x) = Kind x"
    using kp by (simp add: kind_pres_def)
  show ?thesis
  proof (cases r1)
    case (Inl e)
    show ?thesis
    proof (cases "e \<noteq> NotFound \<or> Name (f obj) \<noteq> Name obj \<or> Namespace (f obj) \<noteq> Namespace obj")
      case True
      with run g Inl have "s' = s1"
        and "obj' = obj \<or> obj' = f obj \<and> r = Inl errMutateKey"
        by (auto simp: CreateOrUpdate_def Let_def split: if_splits)
      with c1 q1 kf show ?thesis by (auto simp: errMutateKey_def)
    next
      case False
      obtain r2 s2 where cr: "invoke env (Create c (f obj)) s1 = (r2, s2)"
        by force
      have c2: "calls ?P s1 s2" and q2: "quiet s1 s2"
        using cr kf False by (auto intro: invoke_calls invoke_quiet)
      from run g Inl False cr have "s' = s2"
        by (auto simp: CreateOrUpdate_def Let_def split: sum.splits)
      moreover from run g Inl False cr have "r = Inl Conflict \<longrightarrow> obj' = f obj"
        by (auto simp: CreateOrUpdate_def Let_def split: sum.splits)
      ultimately show ?thesis
        using c1 c2 q1 q2 kf False by (auto intro: calls_trans quiet_trans)
    qed
  next
    case (Inr existing)
    have ke: "Kind existing = Kind obj"
      using g Inr by (auto dest: invoke_kind)
    show ?thesis
    proof (cases "Name (f existing) \<noteq> Name obj \<or> Namespace (f existing) \<noteq> Namespace obj
                    \<or> f existing = existing")
      case True
      with run g Inr have "s' = s1" and "r \<noteq> Inl Conflict"
        by (auto simp: CreateOrUpdate_def Let_def errMutateKey_def split: if_splits)
      with c1 q1 show ?thesis by auto
    next
      case False
      obtain r2 s2 where up: "invoke env (Update c (f existing)) s1 = (r2, s2)"
        by force
      have c2: "calls ?P s1 s2" and q2: "quiet s1 s2"
        using up kf ke False by (auto intro: invoke_calls invoke_quiet)
      from run g Inr False up have "s' = s2"
        by (auto simp: CreateOrUpdate_def Let_def split: sum.splits)
      moreover from run g Inr False up have "r = Inl Conflict \<longrightarrow> obj' = f existing"
        by (auto simp: CreateOrUpdate_def Let_def split: sum.splits)
      ultimately show ?thesis
        using c1 c2 q1 q2 kf ke False by (auto intro: calls_trans quiet_trans)
    qed
  qed
qed

text \<open>A relation that every run of the condition satisfies, and an invariant
  that every run asking for another one keeps, hold of the whole loop.\<close>

lemma ExponentialBackoff_inv:
  assumes step: "\<And>x. I x \<Longrightarrow> R x (snd (condition x))
                   \<and> (fst (condition x) = (False, None) \<longrightarrow> I (snd (condition x)))"
    and refl: "\<And>x. R x x"
    and trans: "\<And>x y z. R x y \<Longrightarrow> R y z \<Longrightarrow> R x z"
  shows "I x \<Longrightarrow> R x (snd (ExponentialBackoff n condition x))"
proof (induction n arbitrary: x)
  case 0
  then show ?case by (simp add: refl)
next
  case (Suc n)
  obtain ok err x' where c: "condition x = ((ok, err), x')"
    by (metis prod.collapse)
  have 1: "R x x'" "(ok, err) = (False, None) \<longrightarrow> I x'"
    using step [OF Suc.prems] c by auto
  show ?case
  proof (cases "err \<noteq> None \<or> ok \<or> n = 0")
    case True
    then have "snd (ExponentialBackoff (Suc n) condition x) = x'"
      using c by auto
    with 1 show ?thesis by simp
  next
    case False
    then have "ExponentialBackoff (Suc n) condition x = ExponentialBackoff n condition x'"
      using c by auto
    moreover have "I x'" using 1(2) False by simp
    ultimately show ?thesis
      using Suc.IH [of x'] 1(1) by (auto intro: trans)
  qed
qed

lemma attempt_frame:
  assumes kp: "kind_pres f" and k: "loop_inv k ns n x"
  shows "loop_rel (upsert_call c k ns n f) x (snd (attempt env c f x))
    \<and> (fst (attempt env c f x) = (False, None) \<longrightarrow> loop_inv k ns n (snd (attempt env c f x)))"
proof -
  obtain op obj s where x: "x = (op, obj, s)"
    by (metis prod.collapse)
  obtain r obj' s' where cu: "CreateOrUpdate env c obj f s = ((r, obj'), s')"
    by (metis prod.collapse)
  from CreateOrUpdate_frame [OF cu kp] k cu x show ?thesis
    by (auto simp: attempt_def loop_inv_def loop_rel_def split: sum.splits)
qed

lemma CreateOrUpdateWithRetries_frame:
  assumes run: "CreateOrUpdateWithRetries env c obj f s = ((op, err, obj'), s')"
    and kp: "kind_pres f"
  shows "calls (upsert_call c (Kind obj) (Namespace obj) (Name obj) f) s s' \<and> quiet s s'"
proof -
  let ?x = "([], obj, s) :: OperationResult \<times> object \<times> 'a state"
  let ?y = "snd (ExponentialBackoff DefaultBackoff_Steps (attempt env c f) ?x)"
  let ?P = "upsert_call c (Kind obj) (Namespace obj) (Name obj) f"
  have "loop_inv (Kind obj) (Namespace obj) (Name obj) ?x"
    by (simp add: loop_inv_def)
  then have "loop_rel ?P ?x ?y"
  proof (rule ExponentialBackoff_inv
      [where I = "loop_inv (Kind obj) (Namespace obj) (Name obj)" and R = "loop_rel ?P", rotated 3])
    fix x :: "OperationResult \<times> object \<times> 'a state"
    assume "loop_inv (Kind obj) (Namespace obj) (Name obj) x"
    then show "loop_rel ?P x (snd (attempt env c f x))
        \<and> (fst (attempt env c f x) = (False, None)
           \<longrightarrow> loop_inv (Kind obj) (Namespace obj) (Name obj) (snd (attempt env c f x)))"
      by (rule attempt_frame [OF kp])
  qed (auto simp: loop_rel_def intro: calls_refl quiet_refl calls_trans quiet_trans)
  with run show ?thesis
    by (auto simp: CreateOrUpdateWithRetries_def loop_rel_def split: prod.splits)
qed

subsection \<open>The retry loop\<close>

lemma after_Suc_right: "after condition (Suc n) x = snd (condition (after condition n x))"
  by (induction n arbitrary: x) simp_all

lemma ExponentialBackoff_stop:
  assumes "\<forall>i<k. fst (condition (after condition i x)) = (False, None)"
    and "k < n"
    and "fst (condition (after condition k x)) = (ok, err)"
    and "err \<noteq> None \<or> ok"
  shows "ExponentialBackoff n condition x = (err, after condition (Suc k) x)"
  using assms
proof (induction n arbitrary: x k)
  case 0
  then show ?case by simp
next
  case (Suc n)
  show ?case
  proof (cases k)
    case 0
    with Suc.prems show ?thesis
      by (auto split: prod.splits)
  next
    case (Suc j)
    let ?x' = "snd (condition x)"
    have first: "fst (condition x) = (False, None)"
      using Suc.prems(1) Suc by force
    have "\<forall>i<j. fst (condition (after condition i ?x')) = (False, None)"
    proof (intro allI impI)
      fix i assume "i < j"
      then have "Suc i < k" using Suc by simp
      with Suc.prems(1) have "fst (condition (after condition (Suc i) x)) = (False, None)"
        by blast
      then show "fst (condition (after condition i ?x')) = (False, None)" by simp
    qed
    moreover have "j < n" using Suc.prems(2) Suc by simp
    moreover have "fst (condition (after condition j ?x')) = (ok, err)"
      using Suc.prems(3) Suc by simp
    ultimately have "ExponentialBackoff n condition ?x' = (err, after condition (Suc j) ?x')"
      using Suc.prems(4) by (rule Suc.IH)
    moreover have "n \<noteq> 0" using \<open>j < n\<close> by simp
    ultimately show ?thesis
      using first Suc by (auto split: prod.splits)
  qed
qed

lemma ExponentialBackoff_exhausted:
  assumes "\<forall>i<n. fst (condition (after condition i x)) = (False, None)"
  shows "ExponentialBackoff n condition x = (Some ErrWaitTimeout, after condition n x)"
  using assms
proof (induction n arbitrary: x)
  case 0
  then show ?case by simp
next
  case (Suc n)
  let ?x' = "snd (condition x)"
  have first: "fst (condition x) = (False, None)"
    using Suc.prems by force
  have "\<forall>i<n. fst (condition (after condition i ?x')) = (False, None)"
  proof (intro allI impI)
    fix i assume "i < n"
    then have "Suc i < Suc n" by simp
    with Suc.prems have "fst (condition (after condition (Suc i) x)) = (False, None)"
      by blast
    then show "fst (condition (after condition i ?x')) = (False, None)" by simp
  qed
  then have "ExponentialBackoff n condition ?x' = (Some ErrWaitTimeout, after condition n ?x')"
    by (rule Suc.IH)
  then show ?case
    using first by (cases n) (auto split: prod.splits)
qed

lemma ExponentialBackoff_no_conflict:
  assumes "\<And>x. snd (fst (condition x)) \<noteq> Some Conflict"
  shows "fst (ExponentialBackoff n condition x) \<noteq> Some Conflict"
proof (induction n arbitrary: x)
  case 0
  then show ?case by simp
next
  case (Suc n)
  obtain ok err x' where c: "condition x = ((ok, err), x')"
    by (metis prod.collapse)
  with assms [of x] have "err \<noteq> Some Conflict" by simp
  with c Suc.IH [of x'] show ?case by simp
qed

lemma attempt_no_conflict: "snd (fst (attempt env c f x)) \<noteq> Some Conflict"
  by (auto simp: attempt_def split: prod.splits sum.splits)

lemma attempt_outcome:
  "fst (attempt env c f (op, obj, s)) =
     (case fst (fst (CreateOrUpdate env c obj f s)) of
        Inr op' \<Rightarrow> (True, None)
      | Inl err \<Rightarrow> if err \<noteq> Conflict then (False, Some err) else (False, None))"
  by (auto simp: attempt_def split: prod.splits sum.splits)

lemma attempt_outcome_n:
  "fst (attempt env c f (attempts_state env c f n obj s)) =
     (case attempt_result env c f n obj s of
        Inr op' \<Rightarrow> (True, None)
      | Inl err \<Rightarrow> if err \<noteq> Conflict then (False, Some err) else (False, None))"
  unfolding attempt_result_def
  by (cases "attempts_state env c f n obj s") (simp add: attempt_outcome)

lemma attempt_op:
  "fst (snd (attempt env c f (op, obj, s))) =
     (case fst (fst (CreateOrUpdate env c obj f s)) of
        Inr op' \<Rightarrow> op' | Inl err \<Rightarrow> OperationResultNone)"
  by (auto simp: attempt_def split: prod.splits sum.splits)

lemma attempts_state_op:
  "fst (attempts_state env c f (Suc n) obj s) =
     (case attempt_result env c f n obj s of Inr op' \<Rightarrow> op' | Inl err \<Rightarrow> OperationResultNone)"
proof -
  obtain a b d where x: "attempts_state env c f n obj s = (a, b, d)"
    by (metis prod.collapse)
  then show ?thesis
    by (simp add: attempts_state_def attempt_result_def attempt_op after_Suc_right
        del: after.simps)
qed

subsection \<open>The phases of a reconcile\<close>

lemma kind_pres_id: "kind_pres (\<lambda>ob. ob)"
  by (simp add: kind_pres_def)

lemma kind_pres_argocdMutate: "kind_pres (argocdMutate l cl j)"
  by (simp add: kind_pres_def argocdMutate_def)

lemma upsert_call_props:
  "upsert_call c k ns n f x \<Longrightarrow>
   call_client x = c \<and> call_kind x = k \<and> call_key x = (ns, n) \<and> (\<forall>c' ob. x \<noteq> Delete c' ob)"
  by (cases x) auto

lemma upsert_bootstrap:
  "(k, ns, n) \<in> identity_objects \<Longrightarrow> upsert_call c k ns n f x \<Longrightarrow> bootstrap_call c x"
  by (auto simp: bootstrap_call_def dest!: upsert_call_props)

lemma retries_bootstrap:
  assumes "CreateOrUpdateWithRetries env c obj f s = ((op, err, obj'), s')"
    and "kind_pres f" and "(Kind obj, Namespace obj, Name obj) \<in> identity_objects"
  shows "calls (bootstrap_call c) s s' \<and> quiet s s'"
  using CreateOrUpdateWithRetries_frame [OF assms(1,2)] assms(3)
  by (auto elim!: calls_mono intro: upsert_bootstrap)

lemma bootstrap_call_not_hc: "bootstrap_call c x \<Longrightarrow> call_kind x \<noteq> HostedClusterKind"
  by (auto simp: bootstrap_call_def identity_objects_def)

lemma ensureIdentityObjects_frame:
  assumes "ensureIdentityObjects env clnt s = (r, s')"
  shows "calls (bootstrap_call clnt) s s' \<and> quiet s s'"
proof -
  let ?sa = "new_object ServiceAccountKind hostedClusterServiceAccountNamespace
                 hostedClusterServiceAccountName"
  obtain op1 e1 sa' s1
    where 1: "CreateOrUpdateWithRetries env clnt ?sa (\<lambda>ob. ob) s = ((op1, e1, sa'), s1)"
    by (metis prod.collapse)
  have f1: "calls (bootstrap_call clnt) s s1 \<and> quiet s s1"
    by (rule retries_bootstrap [OF 1 kind_pres_id])
      (simp add: new_object_def identity_objects_def)
  show ?thesis
  proof (cases e1)
    case (Some e)
    with assms 1 have "s' = s1" by (simp add: ensureIdentityObjects_def)
    with f1 show ?thesis by simp
  next
    case None
    let ?crb = "(new_object ClusterRoleBindingKind [] hostedClusterServiceAccountName)
                          \<lparr>Subjects := [(''ServiceAccount'', hostedClusterServiceAccountName,
                                         hostedClusterServiceAccountNamespace)],
                           RoleRef := (''ClusterRole'', ''cluster-admin'',
                                       ''rbac.authorization.k8s.io'')\<rparr>"
    obtain op2 e2 crb' s2
      where 2: "CreateOrUpdateWithRetries env clnt ?crb (\<lambda>ob. ob) s1 = ((op2, e2, crb'), s2)"
      by (metis prod.collapse)
    have f2: "calls (bootstrap_call clnt) s1 s2 \<and> quiet s1 s2"
      by (rule retries_bootstrap [OF 2 kind_pres_id])
        (simp add: new_object_def identity_objects_def)
    show ?thesis
    proof (cases e2)
      case (Some e)
      with assms 1 2 None have "s' = s2" by (simp add: ensureIdentityObjects_def)
      with f1 f2 show ?thesis by (auto intro: calls_trans quiet_trans)
    next
      case None2: None
      let ?tok = "(new_object SecretKind hostedClusterServiceAccountNamespace
                               (hostedClusterServiceAccountName @ ''-token''))
                              \<lparr>Annotations := [ServiceAccountNameKey \<mapsto> Name sa'],
                               Type := SecretTypeServiceAccountToken\<rparr>"
      obtain op3 e3 tok' s3
        where 3: "CreateOrUpdateWithRetries env clnt ?tok (\<lambda>ob. ob) s2 = ((op3, e3, tok'), s3)"
        by (metis prod.collapse)
      have f3: "calls (bootstrap_call clnt) s2 s3 \<and> quiet s2 s3"
        by (rule retries_bootstrap [OF 3 kind_pres_id])
          (simp add: new_object_def identity_objects_def)
      from assms 1 2 3 None None2 have "s' = s3"
        by (cases e3) (simp_all add: ensureIdentityObjects_def)
      with f1 f2 f3 show ?thesis by (auto intro: calls_trans quiet_trans)
    qed
  qed
qed

lemma setupClusterConfig_frame:
  assumes "setupClusterConfig env clnt server name hc s = (r, s')"
  shows "calls (bootstrap_call clnt) s s' \<and> quiet s s'"
proof -
  obtain r1 s1 where 1: "ensureIdentityObjects env clnt s = (r1, s1)"
    by force
  note f1 = ensureIdentityObjects_frame [OF 1]
  show ?thesis
  proof (cases r1)
    case (Inl e)
    with assms 1 have "s' = s1" by (simp add: setupClusterConfig_def)
    with f1 show ?thesis by simp
  next
    case (Inr tok)
    obtain r2 s2
      where 2: "invoke env (Get clnt SecretKind ''kube-system'' ''hyper-ops-admin-token'') s1
                  = (r2, s2)"
      by force
    have f2: "calls (bootstrap_call clnt) s1 s2" "quiet s1 s2"
      using 2 by (auto intro!: invoke_calls invoke_quiet
          simp: bootstrap_call_def identity_objects_def consts_defs)
    from assms 1 2 Inr have "s' = s2"
      by (auto simp: setupClusterConfig_def split: sum.splits if_splits)
    with f1 f2 show ?thesis by (auto intro: calls_trans quiet_trans)
  qed
qed

lemma createArgoCDClusterSecret_frame:
  assumes "createArgoCDClusterSecret env (Some r) cluster s = (res, s')"
  shows "calls (upsert_call InCluster SecretKind (gitOpsNamespace s) (Cluster_Name cluster)
            (argocdMutate ((heap s r)(argoCDSecretTypeLabel \<mapsto> argoCDSecretTypeCluster)) cluster
               (jsonEncode env (ClusterConfig_json (Cluster_Config cluster))))) s s'
       \<and> heap s' = (heap s)(r := (heap s r)(argoCDSecretTypeLabel \<mapsto> argoCDSecretTypeCluster))
       \<and> gitOpsNamespace s' = gitOpsNamespace s \<and> nxt s' = nxt s"
proof -
  let ?s1 = "heap_upd r (\<lambda>m. m(argoCDSecretTypeLabel \<mapsto> argoCDSecretTypeCluster)) s"
  let ?f = "argocdMutate ((heap s r)(argoCDSecretTypeLabel \<mapsto> argoCDSecretTypeCluster)) cluster
               (jsonEncode env (ClusterConfig_json (Cluster_Config cluster)))"
  let ?ob = "new_object SecretKind (gitOpsNamespace ?s1) (Cluster_Name cluster)"
  have h: "heap ?s1 r = (heap s r)(argoCDSecretTypeLabel \<mapsto> argoCDSecretTypeCluster)"
    by (simp add: heap_upd_def)
  obtain op e ob' s2
    where 1: "CreateOrUpdateWithRetries env InCluster ?ob ?f ?s1 = ((op, e, ob'), s2)"
    by (metis prod.collapse)
  have "Kind ?ob = SecretKind" "Namespace ?ob = gitOpsNamespace s" "Name ?ob = Cluster_Name cluster"
    by (simp_all add: new_object_def heap_upd_def)
  with CreateOrUpdateWithRetries_frame [OF 1 kind_pres_argocdMutate]
  have f: "calls (upsert_call InCluster SecretKind (gitOpsNamespace s) (Cluster_Name cluster) ?f)
             ?s1 s2" "quiet ?s1 s2"
    by simp_all
  from assms 1 h have "s' = s2"
    by (cases e) (simp_all add: createArgoCDClusterSecret_def Let_def)
  moreover have "trace ?s1 = trace s" by (simp add: heap_upd_def)
  ultimately show ?thesis
    using f by (auto simp: calls_def quiet_def heap_upd_def)
qed

text \<open>\<^verbatim>\<open>setupClusterConfig\<close> once the three objects are ensured and the token
  secret is fetched.\<close>

lemma setupClusterConfig_fetched:
  assumes 1: "ensureIdentityObjects env clnt s = (Inr tok, s1)"
    and 2: "api env (Get clnt SecretKind hostedClusterServiceAccountNamespace
                 (hostedClusterServiceAccountName @ ''-token'')) (world s1) = (Inr sec, w')"
  shows "setupClusterConfig env clnt server name hc s =
     (if bytes_at (Data sec) ''token'' = [] then Inl (Errorf ''token not found'')
      else if bytes_at (Data sec) ''ca.crt'' = [] then Inl (Errorf ''ca.crt not found'')
      else Inr \<lparr>Cluster_Name = name, Cluster_Server = server,
                 Cluster_Config =
                   \<lparr>BearerToken = bytes_at (Data sec) ''token'',
                    TLSClientConfig = \<lparr>CAData = EncodeToString (bytes_at (Data sec) ''ca.crt'')\<rparr>\<rparr>,
                 Cluster_HostedCluster = hc\<rparr>,
      s1\<lparr>world := w',
         trace := trace s1 @ [Get clnt SecretKind hostedClusterServiceAccountNamespace
                               (hostedClusterServiceAccountName @ ''-token'')]\<rparr>)"
proof -
  have "invoke env (Get clnt SecretKind ''kube-system'' ''hyper-ops-admin-token'') s1 =
      (Inr (sec\<lparr>Kind := SecretKind\<rparr>),
       s1\<lparr>world := w', trace := trace s1 @ [Get clnt SecretKind ''kube-system'' ''hyper-ops-admin-token'']\<rparr>)"
    using invoke_world [OF 2]
    by (simp add: hostedClusterServiceAccountNamespace_def hostedClusterServiceAccountName_def)
  then show ?thesis
    using 1
    by (simp add: setupClusterConfig_def hostedClusterServiceAccountNamespace_def
        hostedClusterServiceAccountName_def)
qed

subsection \<open>Runs with the scripted client\<close>

lemma ExponentialBackoff_numeral:
  "ExponentialBackoff (numeral k) condition s =
     (case condition s of
        ((ok, err), s') \<Rightarrow>
          if err \<noteq> None \<or> ok then (err, s')
          else if pred_numeral k = 0 then (Some ErrWaitTimeout, s')
          else ExponentialBackoff (pred_numeral k) condition s')"
  by (simp add: numeral_eq_Suc)

lemma EncodeToString_Man: "EncodeToString ''Man'' = ''TWFu''"
  by (simp add: EncodeToString_def b64digit_def encodeURL_def)

lemmas run_defs = reconcile_defs upsert_defs fake_defs consts_defs ExponentialBackoff_numeral
  ClusterConfig_json_def EncodeToString_Man

lemma fake_ensure:
  "fst (ensureIdentityObjects fake_env InCluster (init_state (fake_world Map.empty)))
      = Inr ((new_object SecretKind ''kube-system'' ''hyper-ops-admin-token'')
                \<lparr>Data := [''token'' \<mapsto> ''tok'', ''ca.crt'' \<mapsto> ''Man'']\<rparr>)"
  "world (snd (ensureIdentityObjects fake_env InCluster (init_state (fake_world Map.empty))))
      = fake_world Map.empty"
  by (simp_all add: ensureIdentityObjects_def fake_defs upsert_defs consts_defs eval_nat_numeral)

lemma fake_local_secret:
  "issued local_state
        (snd (createArgoCDClusterSecret fake_env (Some 0) local_cluster local_state))
       = [Get InCluster SecretKind ''openshift-gitops'' ''in-cluster-local'',
          Create InCluster local_secret]"
    by (simp add: issued_def createArgoCDClusterSecret_def heap_upd_def argocdMutate_def
        ClusterConfig_json_def fake_defs upsert_defs consts_defs eval_nat_numeral)

subsection \<open>The local registration\<close>

lemma alloc_simps:
  "fst (alloc m s) = nxt s"
  "heap (snd (alloc m s)) = (heap s)(nxt s := m)"
  "nxt (snd (alloc m s)) = Suc (nxt s)"
  "trace (snd (alloc m s)) = trace s"
  "gitOpsNamespace (snd (alloc m s)) = gitOpsNamespace s"
  "world (snd (alloc m s)) = world s"
  by (simp_all add: alloc_def)

text \<open>The local registration in its two steps.\<close>

lemma registerLocalCluster_steps:
  assumes "setupClusterConfig env InCluster ''https://kubernetes.default.svc''
             ''in-cluster-local'' None s = (r, s1)"
  shows "registerLocalCluster env s =
     (case r of
        Inl err \<Rightarrow> (Some err, s1)
      | Inr localCluster \<Rightarrow>
          createArgoCDClusterSecret env (Some (nxt s1)) localCluster
            (snd (alloc [hyperOpsTypeLabel \<mapsto> ''local''] s1)))"
  using assms by (simp add: registerLocalCluster_def alloc_def split: sum.splits)

lemma registerLocalCluster_frame:
  assumes "registerLocalCluster env s = (res, s')"
  shows "calls (local_call (gitOpsNamespace s)) s s'
    \<and> gitOpsNamespace s' = gitOpsNamespace s
    \<and> (\<forall>r. r < nxt s \<longrightarrow> heap s' r = heap s r) \<and> nxt s \<le> nxt s'"
proof -
  let ?P = "local_call (gitOpsNamespace s)"
  obtain r s1 where 1: "setupClusterConfig env InCluster ''https://kubernetes.default.svc''
             ''in-cluster-local'' None s = (r, s1)"
    by force
  from setupClusterConfig_frame [OF 1]
  have f1: "calls ?P s s1" "quiet s s1"
    by (auto elim!: calls_mono simp: local_call_def)
  show ?thesis
  proof (cases r)
    case (Inl e)
    with assms 1 have "s' = s1" by (simp add: registerLocalCluster_steps)
    with f1 show ?thesis by (simp add: quiet_def)
  next
    case (Inr localCluster)
    let ?s2 = "snd (alloc [hyperOpsTypeLabel \<mapsto> ''local''] s1)"
    from assms 1 Inr
    have 2: "createArgoCDClusterSecret env (Some (nxt s1)) localCluster ?s2 = (res, s')"
      by (simp add: registerLocalCluster_steps)
    have cn: "Cluster_Name localCluster = ''in-cluster-local''"
      using 1 Inr by (auto simp: setupClusterConfig_def split: prod.splits sum.splits if_splits)
    have g2: "gitOpsNamespace ?s2 = gitOpsNamespace s"
      using f1(2) by (simp add: alloc_simps quiet_def)
    from createArgoCDClusterSecret_frame [OF 2]
    have c2: "calls ?P ?s2 s'"
      and h: "heap s' = (heap ?s2)(nxt s1 := (heap ?s2 (nxt s1))
              (argoCDSecretTypeLabel \<mapsto> argoCDSecretTypeCluster))"
      and g: "gitOpsNamespace s' = gitOpsNamespace ?s2" and n: "nxt s' = nxt ?s2"
      unfolding cn g2 by (auto elim!: calls_mono simp: local_call_def alloc_simps)
    have "calls ?P s1 ?s2"
      by (simp add: calls_def alloc_simps)
    with f1 c2 have "calls ?P s s'"
      by (blast intro: calls_trans)
    moreover have "gitOpsNamespace s' = gitOpsNamespace s"
      using g g2 by simp
    moreover have "\<forall>r. r < nxt s \<longrightarrow> heap s' r = heap s r"
      using h f1(2) by (simp add: alloc_simps quiet_def)
    moreover have "nxt s \<le> nxt s'"
      using n f1(2) by (simp add: alloc_simps quiet_def)
    ultimately show ?thesis by simp
  qed
qed

lemma local_call_write:
  assumes "local_call ns x" and "x = Create c ob \<or> x = Update c ob"
    and "Name ob = ''in-cluster-local''"
  shows "c = InCluster \<and> Kind ob = SecretKind \<and> Namespace ob = ns
    \<and> Labels ob = [hyperOpsTypeLabel \<mapsto> ''local'', argoCDSecretTypeLabel \<mapsto> argoCDSecretTypeCluster]"
  using assms
  by (auto simp: local_call_def bootstrap_call_def identity_objects_def consts_defs argocdMutate_def)

subsection \<open>The provisioning of the hosted cluster\<close>

lemma heap_upd_simps:
  "heap (heap_upd r g s) = (heap s)(r := g (heap s r))"
  "trace (heap_upd r g s) = trace s"
  "gitOpsNamespace (heap_upd r g s) = gitOpsNamespace s"
  "nxt (heap_upd r g s) = nxt s"
  "world (heap_upd r g s) = world s"
  by (simp_all add: heap_upd_def)

lemma setupClusterConfig_name:
  "setupClusterConfig env clnt server name hc s = (Inr cl, s') \<Longrightarrow> Cluster_Name cl = name"
  by (auto simp: setupClusterConfig_def split: prod.splits sum.splits if_splits)

lemma provisionHostedCluster_frame:
  assumes run: "provisionHostedCluster env req hc s = (res, s')"
  shows "calls (hosted_call req (gitOpsNamespace s) (hc_Name hc) (labels_of hc s)) s s'
    \<and> gitOpsNamespace s' = gitOpsNamespace s \<and> nxt s' = nxt s
    \<and> (\<forall>r. hc_Labels hc \<noteq> Some r \<longrightarrow> heap s' r = heap s r)"
proof -
  let ?P = "hosted_call req (gitOpsNamespace s) (hc_Name hc) (labels_of hc s)"
  let ?get = "Get InCluster SecretKind (fst req) (snd req @ ''-admin-kubeconfig'')"
  obtain r1 s1 where 1: "invoke env ?get s = (r1, s1)"
    by force
  have f1: "calls ?P s s1" "quiet s s1"
    using 1 by (auto intro!: invoke_calls invoke_quiet simp: hosted_call_def)
  show ?thesis
  proof (cases r1)
    case (Inl e)
    with run 1 have "s' = s1" by (simp add: provisionHostedCluster_def)
    with f1 show ?thesis by (simp add: quiet_def)
  next
    case (Inr kcs)
    show ?thesis
    proof (cases "GetClientForCluster env (bytes_at (Data kcs) ''kubeconfig'')")
      case Inl
      with run 1 Inr have "s' = s1" by (simp add: provisionHostedCluster_def)
      with f1 show ?thesis by (simp add: quiet_def)
    next
      case client: (Inr clnt)
      then obtain b where b: "clnt = ForKubeConfig b"
        by (auto simp: GetClientForCluster_def split: option.splits)
      show ?thesis
      proof (cases "getServerFromKubeConfig env kcs")
        case Inl
        with run 1 Inr client have "s' = s1" by (simp add: provisionHostedCluster_def)
        with f1 show ?thesis by (simp add: quiet_def)
      next
        case server: (Inr server)
        obtain r2 s2 where 2: "setupClusterConfig env clnt server (hc_Name hc) (Some hc) s1 = (r2, s2)"
          by force
        from setupClusterConfig_frame [OF 2] b
        have f2: "calls ?P s1 s2" "quiet s1 s2"
          by (auto elim!: calls_mono simp: hosted_call_def)
        have c12: "calls ?P s s2" and q12: "quiet s s2"
          using f1 f2 by (auto intro: calls_trans quiet_trans)
        show ?thesis
        proof (cases r2)
          case Inl
          with run 1 Inr client server 2 have "s' = s2" by (simp add: provisionHostedCluster_def)
          with c12 q12 show ?thesis by (simp add: quiet_def)
        next
          case cl: (Inr cl)
          show ?thesis
          proof (cases "hc_Labels hc")
            case None
            with run 1 Inr client server 2 cl have "s' = s2"
              by (simp add: provisionHostedCluster_def)
            with c12 q12 show ?thesis by (simp add: quiet_def)
          next
            case (Some r)
            let ?s4 = "heap_upd r (\<lambda>m. m(hyperOpsTypeLabel \<mapsto> ''hosted''))
                         (heap_upd r keepHyperOpsLabels s2)"
            from run 1 Inr client server 2 cl Some
            have 3: "createArgoCDClusterSecret env (Some r) cl ?s4 = (res, s')"
              by (simp add: provisionHostedCluster_def Let_def)
            have h4: "(heap ?s4 r)(argoCDSecretTypeLabel \<mapsto> argoCDSecretTypeCluster)
                       = hosted_labels (labels_of hc s)"
              using q12 Some by (simp add: heap_upd_simps hosted_labels_def labels_of_def quiet_def)
            have g4: "gitOpsNamespace ?s4 = gitOpsNamespace s"
              using q12 by (simp add: heap_upd_simps quiet_def)
            have n: "Cluster_Name cl = hc_Name hc"
              using 2 cl by (auto dest: setupClusterConfig_name)
            from createArgoCDClusterSecret_frame [OF 3]
            have c3: "calls ?P ?s4 s'"
              and h: "heap s' = (heap ?s4)(r := hosted_labels (labels_of hc s))"
              and g: "gitOpsNamespace s' = gitOpsNamespace s" and nx: "nxt s' = nxt ?s4"
              unfolding h4 g4 n by (auto elim!: calls_mono simp: hosted_call_def)
            have "calls ?P s2 ?s4"
              by (simp add: calls_def heap_upd_simps)
            with c12 c3 have "calls ?P s s'"
              by (blast intro: calls_trans)
            moreover have "nxt s' = nxt s"
              using nx q12 by (simp add: heap_upd_simps quiet_def)
            moreover have "\<forall>r'. hc_Labels hc \<noteq> Some r' \<longrightarrow> heap s' r' = heap s r'"
              using h q12 Some by (simp add: heap_upd_simps quiet_def)
            ultimately show ?thesis using g by simp
          qed
        qed
      qed
    qed
  qed
qed

lemma hosted_call_write:
  assumes "hosted_call req ns n m x" and "x = Create InCluster ob \<or> x = Update InCluster ob"
  shows "Kind ob = SecretKind \<and> Namespace ob = ns \<and> Name ob = n \<and> Labels ob = hosted_labels m"
  using assms
  by (auto simp: hosted_call_def bootstrap_call_def argocdMutate_def)

lemma hosted_call_not_hc: "hosted_call req ns n m x \<Longrightarrow> call_kind x \<noteq> HostedClusterKind"
  by (auto simp: hosted_call_def dest: bootstrap_call_not_hc upsert_call_props)

lemma local_call_not_hc: "local_call ns x \<Longrightarrow> call_kind x \<noteq> HostedClusterKind"
  by (auto simp: local_call_def dest: bootstrap_call_not_hc upsert_call_props)

subsection \<open>The reconcile after the fetch\<close>

lemma selectGitOpsNamespace_simps:
  "trace (selectGitOpsNamespace hc s) = trace s"
  "heap (selectGitOpsNamespace hc s) = heap s"
  "nxt (selectGitOpsNamespace hc s) = nxt s"
  "world (selectGitOpsNamespace hc s) = world s"
  "gitOpsNamespace (selectGitOpsNamespace hc s) =
     (case labels_of hc s hyperOpsGitopsNamespaceLabel of
        None \<Rightarrow> gitOpsNamespace s | Some v \<Rightarrow> v)"
  "labels_of hc (selectGitOpsNamespace hc s) = labels_of hc s"
  by (simp_all add: selectGitOpsNamespace_def labels_of_def split: option.splits)

lemma issued_select [simp]: "issued (selectGitOpsNamespace hc s) s' = issued s s'"
  by (simp add: issued_def selectGitOpsNamespace_simps)

lemma labels_of_local:
  assumes "allocated hc s" and "registerLocalCluster env (selectGitOpsNamespace hc s) = (lres, s1)"
  shows "labels_of hc s1 = labels_of hc s \<and> allocated hc s1"
  using registerLocalCluster_frame [OF assms(2)] assms(1)
  by (auto simp: labels_of_def allocated_def selectGitOpsNamespace_simps split: option.splits)

lemma reconcileFetched_frame:
  assumes "reconcileFetched env req hc s = (res, s')"
  shows "calls (\<lambda>x. call_kind x \<noteq> HostedClusterKind) s s'"
proof (cases "hc_Deleting hc")
  case True
  obtain r s1 where 1: "invoke env (Delete InCluster (new_object SecretKind (gitOpsNamespace s) (snd req))) s = (r, s1)"
    by force
  with True assms have "s' = s1"
    by (auto simp: reconcileFetched_def deleteClusterSecret_def split: sum.splits)
  with 1 show ?thesis
    by (auto intro!: invoke_calls simp: new_object_def)
next
  case False
  obtain lres s1 where 1: "registerLocalCluster env (selectGitOpsNamespace hc s) = (lres, s1)"
    by force
  from registerLocalCluster_frame [OF 1]
  have c1: "calls (\<lambda>x. call_kind x \<noteq> HostedClusterKind) s s1"
    by (auto simp: calls_def selectGitOpsNamespace_simps dest: local_call_not_hc)
  show ?thesis
  proof (cases "lres = None \<and> labels_of hc s1 hyperOpsEnabledLabel \<noteq> Some ''false''")
    case True
    with False 1 assms have "provisionHostedCluster env req hc s1 = (res, s')"
      by (simp add: reconcileFetched_def)
    from provisionHostedCluster_frame [OF this]
    have "calls (\<lambda>x. call_kind x \<noteq> HostedClusterKind) s1 s'"
      by (auto elim!: calls_mono dest: hosted_call_not_hc)
    with c1 show ?thesis by (blast intro: calls_trans)
  next
    case False2: False
    with False 1 assms have "s' = s1"
      by (cases lres) (auto simp: reconcileFetched_def)
    with c1 show ?thesis by simp
  qed
qed

subsection \<open>Reconciles with the scripted client\<close>

lemma fake_fetch:
  "ls \<noteq> Map.empty \<Longrightarrow> fk_hc w = Inr (foo_hc ls) \<Longrightarrow>
   Reconcile fake_env foo_req (init_state w)
     = reconcileFetched fake_env foo_req foo_fetched (fetched_state ls w)"
  by (simp add: Reconcile_def invoke_def decodeHostedCluster_def alloc_def fake_defs new_object_def)

lemma fake_select:
  "ls ''hyper-ops.cloudmonkey.org/gitops-namespace'' = None \<Longrightarrow>
   selectGitOpsNamespace foo_fetched (fetched_state ls w) = fetched_state ls w"
  by (simp add: selectGitOpsNamespace_def labels_of_def foo_fetched_def fetched_state_def consts_defs)

lemma fake_local_registration:
  assumes "fk_token w = [''token'' \<mapsto> ''tok'', ''ca.crt'' \<mapsto> ''Man'']" and "fk_writes w = []"
  shows "fst (registerLocalCluster fake_env (fetched_state ls w)) = None"
    and "issued (fetched_state ls w) (snd (registerLocalCluster fake_env (fetched_state ls w)))
     = [Get InCluster ServiceAccountKind ''kube-system'' ''hyper-ops-admin'',
        Create InCluster sa0,
        Get InCluster ClusterRoleBindingKind [] ''hyper-ops-admin'',
        Create InCluster crb0,
        Get InCluster SecretKind ''kube-system'' ''hyper-ops-admin-token'',
        Get InCluster SecretKind ''kube-system'' ''hyper-ops-admin-token'',
        Get InCluster SecretKind ''openshift-gitops'' ''in-cluster-local'',
        Create InCluster local_secret]"
    and "world (snd (registerLocalCluster fake_env (fetched_state ls w))) = w"
  using assms by (simp_all add: issued_def run_defs)

lemma fake_allocated: "allocated foo_fetched (fetched_state ls w)"
  by (simp add: allocated_def foo_fetched_def fetched_state_def)

text \<open>A reconcile of \<^verbatim>\<open>foo\<close> in a world where every step succeeds, from any state.\<close>

lemmas eval_defs = Reconcile_def reconcileFetched_def decodeHostedCluster_def
  provisionHostedCluster_def registerLocalCluster_def selectGitOpsNamespace_def
  deleteClusterSecret_def createArgoCDClusterSecret_def setupClusterConfig_def
  ensureIdentityObjects_def alloc_def heap_upd_def labels_of_def GetClientForCluster_def
  getServerFromKubeConfig_def bytes_at_def IgnoreNotFound_def argocdMutate_def
  upsert_defs fake_defs consts_defs ExponentialBackoff_numeral ClusterConfig_json_def
  EncodeToString_Man local_labels_def local_secret_in_def hosted_secret_def bootstrap_calls_def
  local_calls_def hosted_calls_def foo_fetched_at_def hosted_labels_def

lemma fake_register:
  assumes "steady (world s)"
  shows "registerLocalCluster fake_env s =
     (None, s\<lparr>trace := trace s @ local_calls (gitOpsNamespace s),
              heap := (heap s)(nxt s := local_labels), nxt := Suc (nxt s)\<rparr>)"
  using assms by (simp add: steady_def eval_defs)

lemma fake_provision:
  assumes "steady (world s)"
  shows "provisionHostedCluster fake_env foo_req (foo_fetched_at r) s =
     (None, s\<lparr>trace := trace s @ hosted_calls (gitOpsNamespace s) (heap s r),
              heap := (heap s)(r := hosted_labels (heap s r))\<rparr>)"
  using assms by (simp add: steady_def eval_defs)


lemma foo_fetched_at_simps:
  "hc_Labels (foo_fetched_at r) = Some r" "\<not> hc_Deleting (foo_fetched_at r)"
  "hc_Name (foo_fetched_at r) = ''foo''"
  by (simp_all add: foo_fetched_at_def)

lemma fake_decode:
  "ls \<noteq> Map.empty \<Longrightarrow>
   decodeHostedCluster ((foo_hc ls)\<lparr>Kind := HostedClusterKind\<rparr>) s =
     (foo_fetched_at (nxt s), s\<lparr>heap := (heap s)(nxt s := ls), nxt := Suc (nxt s)\<rparr>)"
  by (simp add: decodeHostedCluster_def alloc_def foo_hc_def foo_fetched_at_def new_object_def)

lemma fake_reconcileFetched:
  assumes st: "steady (world s)" and en: "heap s r hyperOpsEnabledLabel \<noteq> Some ''false''"
    and r: "r < nxt s"
    and ns: "ns = (case heap s r hyperOpsGitopsNamespaceLabel of
                     None \<Rightarrow> gitOpsNamespace s | Some v \<Rightarrow> v)"
  shows "registerLocalCluster fake_env (selectGitOpsNamespace (foo_fetched_at r) s) =
     (None,
      s\<lparr>trace := trace s @ local_calls ns, gitOpsNamespace := ns,
        heap := (heap s)(nxt s := local_labels), nxt := Suc (nxt s)\<rparr>)"
    and "reconcileFetched fake_env foo_req (foo_fetched_at r) s =
     (None,
      s\<lparr>trace := trace s @ local_calls ns @ hosted_calls ns (heap s r),
        gitOpsNamespace := ns,
        heap := (heap s)(nxt s := local_labels, r := hosted_labels (heap s r)),
        nxt := Suc (nxt s)\<rparr>)"
proof -
  let ?hc = "foo_fetched_at r"
  let ?s3 = "s\<lparr>gitOpsNamespace := ns\<rparr>"
  let ?s4 = "?s3\<lparr>trace := trace ?s3 @ local_calls ns,
                  heap := (heap ?s3)(nxt s := local_labels), nxt := Suc (nxt s)\<rparr>"
  have 3: "selectGitOpsNamespace ?hc s = ?s3"
    by (simp add: selectGitOpsNamespace_def labels_of_def foo_fetched_at_simps ns
        split: option.splits)
  have 4: "registerLocalCluster fake_env ?s3 = (None, ?s4)"
    using st by (simp add: fake_register)
  show "registerLocalCluster fake_env (selectGitOpsNamespace ?hc s) =
     (None,
      s\<lparr>trace := trace s @ local_calls ns, gitOpsNamespace := ns,
        heap := (heap s)(nxt s := local_labels), nxt := Suc (nxt s)\<rparr>)"
    unfolding 3 4 by simp
  have 5: "labels_of ?hc ?s4 hyperOpsEnabledLabel \<noteq> Some ''false''"
    using en r by (simp add: labels_of_def foo_fetched_at_simps)
  have 6: "provisionHostedCluster fake_env foo_req ?hc ?s4 =
     (None, ?s4\<lparr>trace := trace ?s4 @ hosted_calls ns (heap s r),
                heap := (heap ?s4)(r := hosted_labels (heap s r))\<rparr>)"
    using st r by (simp add: fake_provision)
  show "reconcileFetched fake_env foo_req ?hc s =
     (None,
      s\<lparr>trace := trace s @ local_calls ns @ hosted_calls ns (heap s r),
        gitOpsNamespace := ns,
        heap := (heap s)(nxt s := local_labels, r := hosted_labels (heap s r)),
        nxt := Suc (nxt s)\<rparr>)"
    using 3 4 5 6 by (simp add: reconcileFetched_def foo_fetched_at_simps)
qed

lemma fake_reconcile:
  assumes st: "steady (world s)" and hc: "fk_hc (world s) = Inr (foo_hc ls)"
    and ne: "ls \<noteq> Map.empty" and en: "ls hyperOpsEnabledLabel \<noteq> Some ''false''"
    and ns: "ns = (case ls hyperOpsGitopsNamespaceLabel of
                     None \<Rightarrow> gitOpsNamespace s | Some v \<Rightarrow> v)"
  shows "Reconcile fake_env foo_req s =
     (None,
      s\<lparr>trace := trace s @ Get InCluster HostedClusterKind ''clusters'' ''foo''
                  # local_calls ns @ hosted_calls ns ls,
        gitOpsNamespace := ns,
        heap := (heap s)(nxt s := hosted_labels ls, Suc (nxt s) := local_labels),
        nxt := Suc (Suc (nxt s))\<rparr>)"
proof -
  let ?hc = "foo_fetched_at (nxt s)"
  let ?s1 = "s\<lparr>trace := trace s @ [Get InCluster HostedClusterKind ''clusters'' ''foo'']\<rparr>"
  let ?s2 = "?s1\<lparr>heap := (heap s)(nxt s := ls), nxt := Suc (nxt s)\<rparr>"
  have 1: "invoke fake_env (Get InCluster HostedClusterKind (fst foo_req) (snd foo_req)) s
      = (Inr ((foo_hc ls)\<lparr>Kind := HostedClusterKind\<rparr>), ?s1)"
    using hc by (simp add: invoke_def fake_env_def foo_req_def)
  have 2: "decodeHostedCluster ((foo_hc ls)\<lparr>Kind := HostedClusterKind\<rparr>) ?s1 = (?hc, ?s2)"
    using ne by (simp add: fake_decode)
  have "Reconcile fake_env foo_req s = reconcileFetched fake_env foo_req ?hc ?s2"
    unfolding Reconcile_def 1 using 2 by simp
  also have "\<dots> =
     (None,
      ?s2\<lparr>trace := trace ?s2 @ local_calls ns @ hosted_calls ns (heap ?s2 (nxt s)),
        gitOpsNamespace := ns,
        heap := (heap ?s2)(nxt ?s2 := local_labels, nxt s := hosted_labels (heap ?s2 (nxt s))),
        nxt := Suc (nxt ?s2)\<rparr>)"
    by (rule fake_reconcileFetched(2)) (use st en ns in \<open>simp_all split: option.splits\<close>)
  also have "\<dots> =
     (None,
      s\<lparr>trace := trace s @ Get InCluster HostedClusterKind ''clusters'' ''foo''
                  # local_calls ns @ hosted_calls ns ls,
        gitOpsNamespace := ns,
        heap := (heap s)(nxt s := hosted_labels ls, Suc (nxt s) := local_labels),
        nxt := Suc (Suc (nxt s))\<rparr>)"
    by (simp add: fun_upd_twist)
  finally show ?thesis .
qed

lemma steady_fake_world: "steady (fake_world ls)"
  by (simp add: steady_def fake_world_def)

lemma last_hosted_calls: "last (xs @ y # local_calls ns @ hosted_calls ns m) = Create InCluster (hosted_secret ns m)"
  by (simp add: hosted_calls_def)

lemma fake_reconcile_init:
  assumes "ls \<noteq> Map.empty" and "ls hyperOpsEnabledLabel \<noteq> Some ''false''"
    and "ns = (case ls hyperOpsGitopsNamespaceLabel of None \<Rightarrow> ''openshift-gitops'' | Some v \<Rightarrow> v)"
  shows "Reconcile fake_env foo_req (init_state (fake_world ls)) =
     (None,
      \<lparr>world = fake_world ls,
       trace = Get InCluster HostedClusterKind ''clusters'' ''foo''
                 # local_calls ns @ hosted_calls ns ls,
       gitOpsNamespace = ns,
       heap = (\<lambda>_. Map.empty)(0 := hosted_labels ls, 1 := local_labels),
       nxt = 2\<rparr>)"
proof -
  let ?s = "init_state (fake_world ls)"
  have "Reconcile fake_env foo_req ?s =
     (None,
      ?s\<lparr>trace := trace ?s @ Get InCluster HostedClusterKind ''clusters'' ''foo''
                  # local_calls ns @ hosted_calls ns ls,
        gitOpsNamespace := ns,
        heap := (heap ?s)(nxt ?s := hosted_labels ls, Suc (nxt ?s) := local_labels),
        nxt := Suc (Suc (nxt ?s))\<rparr>)"
    by (rule fake_reconcile)
      (use assms in \<open>simp_all add: init_state_def steady_def fake_world_def
         gitOpsNamespace_default_def split: option.splits\<close>)
  then show ?thesis
    by (simp add: init_state_def)
qed

section \<open>The claims\<close>

text \<open>
  C1. The target namespace. A reconcile of \<^verbatim>\<open>foo\<close> with the label
  \<^verbatim>\<open>gitops-namespace=ns-a\<close> sets the variable \<^verbatim>\<open>gitOpsNamespace\<close> to \<^verbatim>\<open>ns-a\<close>. A later
  reconcile of \<^verbatim>\<open>foo\<close>, after the label was removed, does not fall back to
  \<^verbatim>\<open>openshift-gitops\<close>: the variable still holds \<^verbatim>\<open>ns-a\<close>, and both secrets of that
  reconcile are written to \<^verbatim>\<open>ns-a\<close>. The run is with the scripted client; the
  second reconcile starts in the state the first one left, with the hosted
  cluster the world returns replaced by one without the label.
\<close>

theorem C1_namespace_override_persists:
  "Labels (foo_hc enabled_labels) hyperOpsGitopsNamespaceLabel = None
   \<and> gitOpsNamespace (snd (Reconcile fake_env foo_req (init_state (fake_world override_labels))))
       = ''ns-a''
   \<and> Reconcile fake_env foo_req
        ((snd (Reconcile fake_env foo_req (init_state (fake_world override_labels))))
           \<lparr>world := fake_world enabled_labels\<rparr>)
     = (None,
        \<lparr>world = fake_world enabled_labels,
         trace = (Get InCluster HostedClusterKind ''clusters'' ''foo''
                    # local_calls ''ns-a'' @ hosted_calls ''ns-a'' override_labels)
                 @ Get InCluster HostedClusterKind ''clusters'' ''foo''
                    # local_calls ''ns-a'' @ hosted_calls ''ns-a'' enabled_labels,
         gitOpsNamespace = ''ns-a'',
         heap = (\<lambda>_. Map.empty)
                  (0 := hosted_labels override_labels, 1 := local_labels,
                   2 := hosted_labels enabled_labels, 3 := local_labels),
         nxt = 4\<rparr>)
   \<and> concat (map local_write (Get InCluster HostedClusterKind ''clusters'' ''foo''
                    # local_calls ''ns-a'' @ hosted_calls ''ns-a'' enabled_labels))
     = [(ServiceAccountKind, ''kube-system'', ''hyper-ops-admin''),
        (ClusterRoleBindingKind, [], ''hyper-ops-admin''),
        (SecretKind, ''ns-a'', ''in-cluster-local''),
        (SecretKind, ''ns-a'', ''foo'')]"
proof -
  let ?s1 = "\<lparr>world = fake_world override_labels,
       trace = Get InCluster HostedClusterKind ''clusters'' ''foo''
                 # local_calls ''ns-a'' @ hosted_calls ''ns-a'' override_labels,
       gitOpsNamespace = ''ns-a'',
       heap = (\<lambda>_. Map.empty)(0 := hosted_labels override_labels, 1 := local_labels),
       nxt = 2\<rparr>"
  have 1: "Reconcile fake_env foo_req (init_state (fake_world override_labels)) = (None, ?s1)"
    by (rule fake_reconcile_init) (simp_all add: override_labels_def consts_defs)
  let ?s = "?s1\<lparr>world := fake_world enabled_labels\<rparr>"
  have "Reconcile fake_env foo_req ?s =
     (None,
      ?s\<lparr>trace := trace ?s @ Get InCluster HostedClusterKind ''clusters'' ''foo''
                  # local_calls ''ns-a'' @ hosted_calls ''ns-a'' enabled_labels,
        gitOpsNamespace := ''ns-a'',
        heap := (heap ?s)(nxt ?s := hosted_labels enabled_labels, Suc (nxt ?s) := local_labels),
        nxt := Suc (Suc (nxt ?s))\<rparr>)"
    by (rule fake_reconcile)
      (simp_all add: steady_def fake_world_def enabled_labels_def consts_defs)
  then have 2: "Reconcile fake_env foo_req ?s =
     (None,
        \<lparr>world = fake_world enabled_labels,
         trace = (Get InCluster HostedClusterKind ''clusters'' ''foo''
                    # local_calls ''ns-a'' @ hosted_calls ''ns-a'' override_labels)
                 @ Get InCluster HostedClusterKind ''clusters'' ''foo''
                    # local_calls ''ns-a'' @ hosted_calls ''ns-a'' enabled_labels,
         gitOpsNamespace = ''ns-a'',
         heap = (\<lambda>_. Map.empty)
                  (0 := hosted_labels override_labels, 1 := local_labels,
                   2 := hosted_labels enabled_labels, 3 := local_labels),
         nxt = 4\<rparr>)"
    by (simp add: eval_nat_numeral)
  have 3: "concat (map local_write (Get InCluster HostedClusterKind ''clusters'' ''foo''
                    # local_calls ''ns-a'' @ hosted_calls ''ns-a'' enabled_labels))
     = [(ServiceAccountKind, ''kube-system'', ''hyper-ops-admin''),
        (ClusterRoleBindingKind, [], ''hyper-ops-admin''),
        (SecretKind, ''ns-a'', ''in-cluster-local''),
        (SecretKind, ''ns-a'', ''foo'')]"
    by (simp add: local_calls_def hosted_calls_def bootstrap_calls_def sa0_def crb0_def
        local_secret_in_def hosted_secret_def new_object_def)
  have 4: "Labels (foo_hc enabled_labels) hyperOpsGitopsNamespaceLabel = None"
    by (simp add: foo_hc_def enabled_labels_def consts_defs)
  show ?thesis
    unfolding 1 using 2 3 4 by simp
qed

text \<open>
  C2. Upsert with retry. \<^verbatim>\<open>CreateOrUpdateWithRetries\<close> runs the whole
  fetch-mutate-write cycle (\<^verbatim>\<open>CreateOrUpdate\<close>) again after every attempt that
  fails with a conflict, at most \<open>DefaultBackoff_Steps\<close> times in all.
  \<^item> When the attempts before attempt \<open>k\<close> conflict and attempt \<open>k\<close> fails with
    another error, that error is returned, and the state is the one after
    these \<open>k + 1\<close> attempts: no further attempt is made. With \<open>k = 0\<close>: a
    failure that is not a conflict is returned at once.
  \<^item> When the attempts before attempt \<open>k\<close> conflict and attempt \<open>k\<close> succeeds,
    no error is returned: the conflicts are not surfaced.
  \<^item> Only when every attempt of the budget conflicts does the caller see an
    error for them, and it is \<^verbatim>\<open>ErrWaitTimeout\<close>: the conflict error itself is
    never returned.
  The sleeps between the attempts are not part of the model.
\<close>

theorem C2_upsert_with_retry:
  "((\<forall>i<k. attempt_result env c f i obj s = Inl Conflict) \<and> k < DefaultBackoff_Steps
      \<and> attempt_result env c f k obj s = Inl e \<and> e \<noteq> Conflict
    \<longrightarrow> CreateOrUpdateWithRetries env c obj f s =
          (case attempts_state env c f (Suc k) obj s of
             (op', obj', s') \<Rightarrow> ((OperationResultNone, Some e, obj'), s')))
   \<and> ((\<forall>i<k. attempt_result env c f i obj s = Inl Conflict) \<and> k < DefaultBackoff_Steps
      \<and> attempt_result env c f k obj s = Inr op
    \<longrightarrow> CreateOrUpdateWithRetries env c obj f s =
          (case attempts_state env c f (Suc k) obj s of
             (op', obj', s') \<Rightarrow> ((op, None, obj'), s')))
   \<and> ((\<forall>i<DefaultBackoff_Steps. attempt_result env c f i obj s = Inl Conflict)
    \<longrightarrow> CreateOrUpdateWithRetries env c obj f s =
          (case attempts_state env c f DefaultBackoff_Steps obj s of
             (op', obj', s') \<Rightarrow> ((OperationResultNone, Some ErrWaitTimeout, obj'), s')))
   \<and> fst (snd (fst (CreateOrUpdateWithRetries env c obj f s))) \<noteq> Some Conflict"
proof (intro conjI impI)
  let ?cond = "attempt env c f"
  let ?x = "([], obj, s) :: OperationResult \<times> object \<times> 'a state"
  have st: "\<And>n. after ?cond n ?x = attempts_state env c f n obj s"
    by (simp add: attempts_state_def)
  {
    assume h: "(\<forall>i<k. attempt_result env c f i obj s = Inl Conflict) \<and> k < DefaultBackoff_Steps
      \<and> attempt_result env c f k obj s = Inl e \<and> e \<noteq> Conflict"
    have "ExponentialBackoff DefaultBackoff_Steps ?cond ?x = (Some e, after ?cond (Suc k) ?x)"
      by (rule ExponentialBackoff_stop [where ok = False])
        (use h in \<open>auto simp: st attempt_outcome_n\<close>)
    then show "CreateOrUpdateWithRetries env c obj f s =
          (case attempts_state env c f (Suc k) obj s of
             (op', obj', s') \<Rightarrow> ((OperationResultNone, Some e, obj'), s'))"
      using attempts_state_op [of env c f k obj s] h unfolding st
      by (auto simp: CreateOrUpdateWithRetries_def split: prod.splits)
  }
  {
    assume h: "(\<forall>i<k. attempt_result env c f i obj s = Inl Conflict) \<and> k < DefaultBackoff_Steps
      \<and> attempt_result env c f k obj s = Inr op"
    have "ExponentialBackoff DefaultBackoff_Steps ?cond ?x = (None, after ?cond (Suc k) ?x)"
      by (rule ExponentialBackoff_stop [where ok = True])
        (use h in \<open>auto simp: st attempt_outcome_n\<close>)
    then show "CreateOrUpdateWithRetries env c obj f s =
          (case attempts_state env c f (Suc k) obj s of
             (op', obj', s') \<Rightarrow> ((op, None, obj'), s'))"
      using attempts_state_op [of env c f k obj s] h unfolding st
      by (auto simp: CreateOrUpdateWithRetries_def split: prod.splits)
  }
  {
    assume h: "\<forall>i<DefaultBackoff_Steps. attempt_result env c f i obj s = Inl Conflict"
    have "ExponentialBackoff DefaultBackoff_Steps ?cond ?x
        = (Some ErrWaitTimeout, after ?cond DefaultBackoff_Steps ?x)"
      by (rule ExponentialBackoff_exhausted) (use h in \<open>auto simp: st attempt_outcome_n\<close>)
    moreover have "fst (attempts_state env c f DefaultBackoff_Steps obj s) = OperationResultNone"
      using attempts_state_op [of env c f 3 obj s] h
      by (simp add: DefaultBackoff_Steps_def eval_nat_numeral)
    ultimately show "CreateOrUpdateWithRetries env c obj f s =
          (case attempts_state env c f DefaultBackoff_Steps obj s of
             (op', obj', s') \<Rightarrow> ((OperationResultNone, Some ErrWaitTimeout, obj'), s'))"
      unfolding st
      by (auto simp: CreateOrUpdateWithRetries_def split: prod.splits)
  }
  show "fst (snd (fst (CreateOrUpdateWithRetries env c obj f s))) \<noteq> Some Conflict"
    using ExponentialBackoff_no_conflict [of ?cond DefaultBackoff_Steps ?x, OF attempt_no_conflict]
    by (auto simp: CreateOrUpdateWithRetries_def split: prod.splits)
qed

text \<open>
  An example for each case, with the scripted client: the first write fails
  with a failure that is no conflict (one attempt: a fetch and a write); the
  first write conflicts and the second succeeds (two attempts, no error); all
  four writes conflict (four attempts, \<^verbatim>\<open>ErrWaitTimeout\<close>).
\<close>

theorem C2_upsert_with_retry_witness:
  "CreateOrUpdateWithRetries fake_env InCluster sa0 (\<lambda>ob. ob)
     (init_state ((fake_world Map.empty)\<lparr>fk_writes := [Some (Failure ''forbidden'')]\<rparr>))
   = ((OperationResultNone, Some (Failure ''forbidden''), sa0),
      \<lparr>world = fake_world Map.empty,
       trace = [Get InCluster ServiceAccountKind ''kube-system'' ''hyper-ops-admin'',
                Create InCluster sa0],
       gitOpsNamespace = gitOpsNamespace_default, heap = (\<lambda>_. Map.empty), nxt = 0\<rparr>)
   \<and> CreateOrUpdateWithRetries fake_env InCluster sa0 (\<lambda>ob. ob)
     (init_state ((fake_world Map.empty)\<lparr>fk_writes := [Some Conflict]\<rparr>))
   = ((OperationResultCreated, None, sa0),
      \<lparr>world = fake_world Map.empty,
       trace = [Get InCluster ServiceAccountKind ''kube-system'' ''hyper-ops-admin'',
                Create InCluster sa0,
                Get InCluster ServiceAccountKind ''kube-system'' ''hyper-ops-admin'',
                Create InCluster sa0],
       gitOpsNamespace = gitOpsNamespace_default, heap = (\<lambda>_. Map.empty), nxt = 0\<rparr>)
   \<and> fst (CreateOrUpdateWithRetries fake_env InCluster sa0 (\<lambda>ob. ob)
     (init_state ((fake_world Map.empty)
        \<lparr>fk_writes := [Some Conflict, Some Conflict, Some Conflict, Some Conflict, None]\<rparr>)))
   = (OperationResultNone, Some ErrWaitTimeout, sa0)
   \<and> length (trace (snd (CreateOrUpdateWithRetries fake_env InCluster sa0 (\<lambda>ob. ob)
     (init_state ((fake_world Map.empty)
        \<lparr>fk_writes := [Some Conflict, Some Conflict, Some Conflict, Some Conflict, None]\<rparr>)))))
   = 8"
  using
    C2_upsert_with_retry [of 0 fake_env InCluster "\<lambda>ob. ob" sa0
      "init_state ((fake_world Map.empty)\<lparr>fk_writes := [Some (Failure ''forbidden'')]\<rparr>)"
      "Failure ''forbidden''" OperationResultCreated]
    C2_upsert_with_retry [of "Suc 0" fake_env InCluster "\<lambda>ob. ob" sa0
      "init_state ((fake_world Map.empty)\<lparr>fk_writes := [Some Conflict]\<rparr>)"
      "Failure ''forbidden''" OperationResultCreated]
    C2_upsert_with_retry [of 0 fake_env InCluster "\<lambda>ob. ob" sa0
      "init_state ((fake_world Map.empty)
        \<lparr>fk_writes := [Some Conflict, Some Conflict, Some Conflict, Some Conflict, None]\<rparr>)"
      "Failure ''forbidden''" OperationResultCreated]
  by (simp add: attempt_result_def attempts_state_def fake_defs upsert_defs consts_defs
      eval_nat_numeral less_Suc_eq all_conj_distrib)

text \<open>
  C3. Label propagation, for a hosted cluster that is not being deleted, whose
  local registration succeeded and whose enablement label is not \<^verbatim>\<open>false\<close>.
  Every object the rest of the reconcile hands to a create or an update
  through the controller's own client is a secret with the name of the hosted
  cluster, and it carries these labels: the labels of the
  fetched hosted cluster with every key without the prefix
  \<^verbatim>\<open>hyper-ops.cloudmonkey.org\<close> removed, then the type label set to \<^verbatim>\<open>hosted\<close>, then
  the secret-type label set to \<^verbatim>\<open>cluster\<close>. So a key with the prefix, other than
  the type label, has the value of the source; a key without the prefix,
  other than the secret-type label, is absent.
\<close>

theorem C3_label_propagation:
  assumes "\<not> hc_Deleting hc" and "allocated hc s"
    and "registerLocalCluster env (selectGitOpsNamespace hc s) = (None, s1)"
    and "labels_of hc s hyperOpsEnabledLabel \<noteq> Some ''false''"
    and "reconcileFetched env req hc s = (res, s')"
    and "Create InCluster ob \<in> set (issued s1 s') \<or> Update InCluster ob \<in> set (issued s1 s')"
  shows "Kind ob = SecretKind \<and> Name ob = hc_Name hc
    \<and> Labels ob =
           ((keepHyperOpsLabels (labels_of hc s))(hyperOpsTypeLabel \<mapsto> ''hosted''))
             (argoCDSecretTypeLabel \<mapsto> argoCDSecretTypeCluster)
    \<and> Labels ob hyperOpsTypeLabel = Some ''hosted''
    \<and> Labels ob argoCDSecretTypeLabel = Some argoCDSecretTypeCluster
    \<and> (\<forall>k. HasPrefix k hyperOpsLabel \<and> k \<noteq> hyperOpsTypeLabel
          \<longrightarrow> Labels ob k = labels_of hc s k)
    \<and> (\<forall>k. \<not> HasPrefix k hyperOpsLabel \<and> k \<noteq> argoCDSecretTypeLabel
          \<longrightarrow> Labels ob k = None)"
proof -
  from assms labels_of_local [OF assms(2,3)]
  have run: "provisionHostedCluster env req hc s1 = (res, s')"
    by (simp add: reconcileFetched_def)
  from provisionHostedCluster_frame [OF run] assms(6)
  have "\<exists>x. hosted_call req (gitOpsNamespace s1) (hc_Name hc) (labels_of hc s1) x
           \<and> (x = Create InCluster ob \<or> x = Update InCluster ob)"
    by (auto dest: calls_issued)
  then have w: "Kind ob = SecretKind \<and> Name ob = hc_Name hc
      \<and> Labels ob = hosted_labels (labels_of hc s1)"
    by (auto dest: hosted_call_write)
  then have l: "Labels ob =
           ((keepHyperOpsLabels (labels_of hc s))(hyperOpsTypeLabel \<mapsto> ''hosted''))
             (argoCDSecretTypeLabel \<mapsto> argoCDSecretTypeCluster)"
    using labels_of_local [OF assms(2,3)] by (simp add: hosted_labels_def)
  have p: "HasPrefix hyperOpsTypeLabel hyperOpsLabel" "\<not> HasPrefix argoCDSecretTypeLabel hyperOpsLabel"
    "hyperOpsTypeLabel \<noteq> argoCDSecretTypeLabel"
    by (simp_all add: HasPrefix_def consts_defs)
  show ?thesis
    unfolding l using p w by (auto simp: keepHyperOpsLabels_def)
qed

text \<open>
  Not every source key without the prefix is absent: a hosted cluster that
  carries the label \<^verbatim>\<open>argocd.argoproj.io/secret-type\<close> itself has that key in the
  labels of its secret (with the value \<^verbatim>\<open>cluster\<close>).
\<close>

theorem C3_label_propagation_counterexample:
  "fst (Reconcile fake_env foo_req (init_state (fake_world argocd_labels))) = None
   \<and> last (trace (snd (Reconcile fake_env foo_req (init_state (fake_world argocd_labels)))))
       = Create InCluster (hosted_secret ''openshift-gitops'' argocd_labels)
   \<and> Labels (hosted_secret ''openshift-gitops'' argocd_labels) argoCDSecretTypeLabel
       = Some ''cluster''
   \<and> Labels (foo_hc argocd_labels) argoCDSecretTypeLabel = Some ''repository''
   \<and> \<not> HasPrefix argoCDSecretTypeLabel hyperOpsLabel"
proof -
  have "Reconcile fake_env foo_req (init_state (fake_world argocd_labels)) =
     (None,
      (init_state (fake_world argocd_labels))
       \<lparr>trace := trace (init_state (fake_world argocd_labels))
                  @ Get InCluster HostedClusterKind ''clusters'' ''foo''
                  # local_calls ''openshift-gitops''
                  @ hosted_calls ''openshift-gitops'' argocd_labels,
        gitOpsNamespace := ''openshift-gitops'',
        heap := (heap (init_state (fake_world argocd_labels)))
                  (nxt (init_state (fake_world argocd_labels)) := hosted_labels argocd_labels,
                   Suc (nxt (init_state (fake_world argocd_labels))) := local_labels),
        nxt := Suc (Suc (nxt (init_state (fake_world argocd_labels))))\<rparr>)"
    by (rule fake_reconcile)
      (simp_all add: init_state_def steady_def fake_world_def argocd_labels_def consts_defs)
  then show ?thesis
    by (simp add: last_hosted_calls hosted_secret_def hosted_labels_def foo_hc_def
        argocd_labels_def HasPrefix_def consts_defs)
qed

text \<open>A hosted cluster with the enablement label and the label \<^verbatim>\<open>team\<close>.\<close>

theorem C3_label_propagation_witness:
  "reconcileFetched fake_env foo_req (foo_fetched_at 0)
       (fetched_state team_labels (fake_world team_labels))
     = (None,
        (fetched_state team_labels (fake_world team_labels))
          \<lparr>trace := trace (fetched_state team_labels (fake_world team_labels))
                    @ local_calls ''openshift-gitops''
                    @ hosted_calls ''openshift-gitops'' team_labels,
           heap := (\<lambda>_. Map.empty)(0 := hosted_labels team_labels, 1 := local_labels),
           nxt := 2\<rparr>)
   \<and> Labels (hosted_secret ''openshift-gitops'' team_labels) ''team'' = None
   \<and> Labels (hosted_secret ''openshift-gitops'' team_labels)
        ''hyper-ops.cloudmonkey.org/enabled'' = Some ''true''
   \<and> Labels (hosted_secret ''openshift-gitops'' team_labels)
        ''hyper-ops.cloudmonkey.org/type'' = Some ''hosted''
   \<and> Labels (hosted_secret ''openshift-gitops'' team_labels)
        ''argocd.argoproj.io/secret-type'' = Some ''cluster''"
proof -
  let ?s = "fetched_state team_labels (fake_world team_labels)"
  let ?hc = "foo_fetched_at 0"
  let ?ob = "hosted_secret ''openshift-gitops'' team_labels"
  let ?s1 = "?s\<lparr>trace := trace ?s @ local_calls ''openshift-gitops'',
                 gitOpsNamespace := ''openshift-gitops'',
                 heap := (heap ?s)(nxt ?s := local_labels), nxt := Suc (nxt ?s)\<rparr>"
  let ?s' = "?s\<lparr>trace := trace ?s @ local_calls ''openshift-gitops''
                          @ hosted_calls ''openshift-gitops'' (heap ?s 0),
                 gitOpsNamespace := ''openshift-gitops'',
                 heap := (heap ?s)(nxt ?s := local_labels, 0 := hosted_labels (heap ?s 0)),
                 nxt := Suc (nxt ?s)\<rparr>"
  have pre: "steady (world ?s)" "heap ?s 0 hyperOpsEnabledLabel \<noteq> Some ''false''" "0 < nxt ?s"
    "''openshift-gitops'' = (case heap ?s 0 hyperOpsGitopsNamespaceLabel of
                     None \<Rightarrow> gitOpsNamespace ?s | Some v \<Rightarrow> v)"
    by (simp_all add: fetched_state_def steady_def fake_world_def team_labels_def consts_defs)
  have h1: "\<not> hc_Deleting ?hc" and h2: "allocated ?hc ?s"
    by (simp_all add: foo_fetched_at_simps allocated_def fetched_state_def)
  have h3: "registerLocalCluster fake_env (selectGitOpsNamespace ?hc ?s) = (None, ?s1)"
    by (rule fake_reconcileFetched(1) [OF pre])
  have h4: "labels_of ?hc ?s hyperOpsEnabledLabel \<noteq> Some ''false''"
    using pre(2) by (simp add: labels_of_def foo_fetched_at_simps)
  have h5: "reconcileFetched fake_env foo_req ?hc ?s = (None, ?s')"
    by (rule fake_reconcileFetched(2) [OF pre])
  have h6: "Create InCluster ?ob \<in> set (issued ?s1 ?s') \<or> Update InCluster ?ob \<in> set (issued ?s1 ?s')"
    by (simp add: issued_def hosted_calls_def fetched_state_def)
  have l: "labels_of ?hc ?s = team_labels"
    by (simp add: labels_of_def foo_fetched_at_simps fetched_state_def)
  note th = C3_label_propagation [OF h1 h2 h3 h4 h5 h6, unfolded l]
  have p: "\<not> HasPrefix ''team'' hyperOpsLabel" "''team'' \<noteq> argoCDSecretTypeLabel"
    "HasPrefix ''hyper-ops.cloudmonkey.org/enabled'' hyperOpsLabel"
    "''hyper-ops.cloudmonkey.org/enabled'' \<noteq> hyperOpsTypeLabel"
    by (simp_all add: HasPrefix_def consts_defs)
  from th p have "Labels ?ob ''team'' = None"
    and "Labels ?ob ''hyper-ops.cloudmonkey.org/enabled'' = team_labels ''hyper-ops.cloudmonkey.org/enabled''"
    and "Labels ?ob hyperOpsTypeLabel = Some ''hosted''"
    and "Labels ?ob argoCDSecretTypeLabel = Some argoCDSecretTypeCluster"
    by blast+
  moreover have "?s' = ?s
          \<lparr>trace := trace ?s @ local_calls ''openshift-gitops''
                    @ hosted_calls ''openshift-gitops'' team_labels,
           heap := (\<lambda>_. Map.empty)(0 := hosted_labels team_labels, 1 := local_labels),
           nxt := 2\<rparr>"
    by (simp add: fetched_state_def gitOpsNamespace_default_def fun_upd_twist)
  ultimately show ?thesis
    using h5 by (simp add: team_labels_def consts_defs)
qed

text \<open>
  C4. The local registration and the enablement label, for a fetched hosted
  cluster that is not being deleted. The local registration
  (\<open>registerLocalCluster\<close>: the bootstrap of the local cluster, then the upsert
  of its secret) runs first, from the state in which only the target
  namespace is chosen; the enablement label is not read before it.
  \<^item> When the local registration fails, the reconcile returns its error,
    whatever the enablement label is.
  \<^item> When it succeeds and the enablement label is \<^verbatim>\<open>false\<close>, the reconcile returns
    success in the state the local registration left: no further call is made.
  \<^item> Every object named \<^verbatim>\<open>in-cluster-local\<close> that the local registration hands to
    a create or an update is a secret in the target namespace, written through
    the controller's own client, with the labels type \<^verbatim>\<open>local\<close> and secret-type
    \<^verbatim>\<open>cluster\<close>.
\<close>

theorem C4_local_registration_gating:
  assumes "\<not> hc_Deleting hc" and "allocated hc s"
    and "registerLocalCluster env (selectGitOpsNamespace hc s) = (lres, s1)"
  shows "(\<forall>e. lres = Some e \<longrightarrow> reconcileFetched env req hc s = (Some e, s1))
    \<and> (lres = None \<and> labels_of hc s hyperOpsEnabledLabel = Some ''false''
         \<longrightarrow> reconcileFetched env req hc s = (None, s1))
    \<and> (\<forall>c ob. (Create c ob \<in> set (issued s s1) \<or> Update c ob \<in> set (issued s s1))
           \<and> Name ob = ''in-cluster-local''
         \<longrightarrow> c = InCluster \<and> Kind ob = SecretKind
           \<and> Namespace ob = (case labels_of hc s hyperOpsGitopsNamespaceLabel of
                               None \<Rightarrow> gitOpsNamespace s | Some v \<Rightarrow> v)
           \<and> Labels ob = [hyperOpsTypeLabel \<mapsto> ''local'',
                           argoCDSecretTypeLabel \<mapsto> argoCDSecretTypeCluster])"
proof (intro conjI allI impI)
  fix e assume "lres = Some e"
  with assms show "reconcileFetched env req hc s = (Some e, s1)"
    by (simp add: reconcileFetched_def)
next
  assume "lres = None \<and> labels_of hc s hyperOpsEnabledLabel = Some ''false''"
  with assms labels_of_local [OF assms(2,3)]
  show "reconcileFetched env req hc s = (None, s1)"
    by (simp add: reconcileFetched_def)
next
  fix c ob
  assume h: "(Create c ob \<in> set (issued s s1) \<or> Update c ob \<in> set (issued s s1))
           \<and> Name ob = ''in-cluster-local''"
  let ?ns = "case labels_of hc s hyperOpsGitopsNamespaceLabel of
               None \<Rightarrow> gitOpsNamespace s | Some v \<Rightarrow> v"
  from registerLocalCluster_frame [OF assms(3)]
  have "calls (local_call ?ns) (selectGitOpsNamespace hc s) s1"
    by (simp add: selectGitOpsNamespace_simps)
  with h have "local_call ?ns (Create c ob) \<or> local_call ?ns (Update c ob)"
    by (auto dest: calls_issued)
  with h have "c = InCluster \<and> Kind ob = SecretKind \<and> Namespace ob = ?ns
    \<and> Labels ob = [hyperOpsTypeLabel \<mapsto> ''local'', argoCDSecretTypeLabel \<mapsto> argoCDSecretTypeCluster]"
    by (auto dest: local_call_write)
  then show "c = InCluster" "Kind ob = SecretKind" "Namespace ob = ?ns"
    "Labels ob = [hyperOpsTypeLabel \<mapsto> ''local'', argoCDSecretTypeLabel \<mapsto> argoCDSecretTypeCluster]"
    by simp_all
qed

text \<open>A hosted cluster with the enablement label \<^verbatim>\<open>false\<close>, in a world where every
  step succeeds.\<close>

theorem C4_local_registration_gating_witness:
  "Reconcile fake_env foo_req (init_state (fake_world disabled_labels))
     = (None, snd (registerLocalCluster fake_env
                 (fetched_state disabled_labels (fake_world disabled_labels))))
   \<and> issued (fetched_state disabled_labels (fake_world disabled_labels))
       (snd (registerLocalCluster fake_env
               (fetched_state disabled_labels (fake_world disabled_labels))))
     = [Get InCluster ServiceAccountKind ''kube-system'' ''hyper-ops-admin'',
        Create InCluster sa0,
        Get InCluster ClusterRoleBindingKind [] ''hyper-ops-admin'',
        Create InCluster crb0,
        Get InCluster SecretKind ''kube-system'' ''hyper-ops-admin-token'',
        Get InCluster SecretKind ''kube-system'' ''hyper-ops-admin-token'',
        Get InCluster SecretKind ''openshift-gitops'' ''in-cluster-local'',
        Create InCluster local_secret]
   \<and> Kind local_secret = SecretKind \<and> Namespace local_secret = ''openshift-gitops''
   \<and> Labels local_secret = [hyperOpsTypeLabel \<mapsto> ''local'',
                              argoCDSecretTypeLabel \<mapsto> argoCDSecretTypeCluster]"
proof -
  let ?w = "fake_world disabled_labels"
  let ?s = "fetched_state disabled_labels ?w"
  let ?run = "registerLocalCluster fake_env ?s"
  have w: "fk_token ?w = [''token'' \<mapsto> ''tok'', ''ca.crt'' \<mapsto> ''Man'']" "fk_writes ?w = []"
    by (simp_all add: fake_world_def)
  have sel: "selectGitOpsNamespace foo_fetched ?s = ?s"
    by (rule fake_select) (simp add: disabled_labels_def)
  have h1: "\<not> hc_Deleting foo_fetched"
    by (simp add: foo_fetched_def)
  have h3: "registerLocalCluster fake_env (selectGitOpsNamespace foo_fetched ?s) = (None, snd ?run)"
    unfolding sel by (simp add: prod_eq_iff fake_local_registration(1) [OF w])
  note th = C4_local_registration_gating [OF h1 fake_allocated h3, of foo_req]
  have en: "labels_of foo_fetched ?s hyperOpsEnabledLabel = Some ''false''"
    by (simp add: labels_of_def foo_fetched_def fetched_state_def disabled_labels_def consts_defs)
  have ns: "labels_of foo_fetched ?s hyperOpsGitopsNamespaceLabel = None"
    by (simp add: labels_of_def foo_fetched_def fetched_state_def disabled_labels_def consts_defs)
  from th en have 1: "reconcileFetched fake_env foo_req foo_fetched ?s = (None, snd ?run)"
    by blast
  have "Reconcile fake_env foo_req (init_state ?w) = reconcileFetched fake_env foo_req foo_fetched ?s"
    by (rule fake_fetch) (simp_all add: disabled_labels_def fake_world_def)
  with 1 have 2: "Reconcile fake_env foo_req (init_state ?w) = (None, snd ?run)"
    by simp
  have "Create InCluster local_secret \<in> set (issued ?s (snd ?run))" "Name local_secret = ''in-cluster-local''"
    by (simp_all add: fake_local_registration(2) [OF w] local_secret_def new_object_def)
  with th have "Kind local_secret = SecretKind
      \<and> Namespace local_secret = (case labels_of foo_fetched ?s hyperOpsGitopsNamespaceLabel of
                               None \<Rightarrow> gitOpsNamespace ?s | Some v \<Rightarrow> v)
      \<and> Labels local_secret = [hyperOpsTypeLabel \<mapsto> ''local'',
                           argoCDSecretTypeLabel \<mapsto> argoCDSecretTypeCluster]"
    by blast
  then have 3: "Kind local_secret = SecretKind \<and> Namespace local_secret = ''openshift-gitops''
      \<and> Labels local_secret = [hyperOpsTypeLabel \<mapsto> ''local'',
                           argoCDSecretTypeLabel \<mapsto> argoCDSecretTypeCluster]"
    unfolding ns by (simp add: fetched_state_def gitOpsNamespace_default_def)
  from 2 3 fake_local_registration(2) [OF w, of disabled_labels] show ?thesis
    by simp
qed

text \<open>
  The local secret is not upserted in every reconcile, and a reconcile of a
  hosted cluster with the enablement label \<^verbatim>\<open>false\<close> does not always return
  success: when the token of the local service account is not there yet, the
  reconcile returns the error of the bootstrap and writes no secret.
\<close>

theorem C4_local_registration_counterexample:
  "fst (Reconcile fake_env foo_req (init_state (token_missing disabled_labels)))
     = Some (Errorf ''token not found'')
   \<and> trace (snd (Reconcile fake_env foo_req (init_state (token_missing disabled_labels))))
     = [Get InCluster HostedClusterKind ''clusters'' ''foo'',
        Get InCluster ServiceAccountKind ''kube-system'' ''hyper-ops-admin'',
        Create InCluster sa0,
        Get InCluster ClusterRoleBindingKind [] ''hyper-ops-admin'',
        Create InCluster crb0,
        Get InCluster SecretKind ''kube-system'' ''hyper-ops-admin-token'',
        Get InCluster SecretKind ''kube-system'' ''hyper-ops-admin-token'']
   \<and> Labels (foo_hc disabled_labels) hyperOpsEnabledLabel = Some ''false''
   \<and> Deleting (foo_hc disabled_labels) = False"
  by (simp add: run_defs)

text \<open>
  C5. The fetch of the kubeconfig secret, for a hosted cluster that is not
  being deleted, whose local registration succeeded and whose enablement
  label is not \<^verbatim>\<open>false\<close>. When the fetch of the secret
  \<^verbatim>\<open><name>-admin-kubeconfig\<close> in the namespace of the request fails, the fetch
  is the last call of the reconcile (so no secret for the hosted cluster is
  written), and the reconcile returns the error of the fetch unless the error
  is not-found; for not-found it returns success.
\<close>

theorem C5_kubeconfig_fetch_failure:
  assumes "\<not> hc_Deleting hc" and "allocated hc s"
    and "registerLocalCluster env (selectGitOpsNamespace hc s) = (None, s1)"
    and "labels_of hc s hyperOpsEnabledLabel \<noteq> Some ''false''"
    and "api env (Get InCluster SecretKind (fst req) (snd req @ ''-admin-kubeconfig'')) (world s1)
           = (Inl e, w')"
  shows "reconcileFetched env req hc s =
           (if e = NotFound then None else Some e,
            s1\<lparr>world := w',
               trace := trace s1
                 @ [Get InCluster SecretKind (fst req) (snd req @ ''-admin-kubeconfig'')]\<rparr>)"
  using assms labels_of_local [OF assms(2,3)] invoke_world [OF assms(5)]
  by (simp add: reconcileFetched_def provisionHostedCluster_def IgnoreNotFound_def)

text \<open>The fetch of the kubeconfig secret fails with an error that is not
  not-found.\<close>

theorem C5_kubeconfig_fetch_failure_witness:
  "fst (Reconcile fake_env foo_req
          (init_state ((fake_world enabled_labels)\<lparr>fk_kubeconfig := Inl (Failure ''timeout'')\<rparr>)))
     = Some (Failure ''timeout'')
   \<and> issued (snd (registerLocalCluster fake_env (fetched_state enabled_labels
                ((fake_world enabled_labels)\<lparr>fk_kubeconfig := Inl (Failure ''timeout'')\<rparr>))))
        (snd (Reconcile fake_env foo_req
          (init_state ((fake_world enabled_labels)\<lparr>fk_kubeconfig := Inl (Failure ''timeout'')\<rparr>))))
     = [Get InCluster SecretKind ''clusters'' ''foo-admin-kubeconfig'']"
proof -
  let ?w = "(fake_world enabled_labels)\<lparr>fk_kubeconfig := Inl (Failure ''timeout'')\<rparr>"
  let ?s = "fetched_state enabled_labels ?w"
  let ?run = "registerLocalCluster fake_env ?s"
  let ?get = "Get InCluster SecretKind ''clusters'' ''foo-admin-kubeconfig''"
  have w: "fk_token ?w = [''token'' \<mapsto> ''tok'', ''ca.crt'' \<mapsto> ''Man'']" "fk_writes ?w = []"
    by (simp_all add: fake_world_def)
  have sel: "selectGitOpsNamespace foo_fetched ?s = ?s"
    by (rule fake_select) (simp add: enabled_labels_def)
  have h1: "\<not> hc_Deleting foo_fetched"
    by (simp add: foo_fetched_def)
  have h3: "registerLocalCluster fake_env (selectGitOpsNamespace foo_fetched ?s) = (None, snd ?run)"
    unfolding sel by (simp add: prod_eq_iff fake_local_registration(1) [OF w])
  have h4: "labels_of foo_fetched ?s hyperOpsEnabledLabel \<noteq> Some ''false''"
    by (simp add: labels_of_def foo_fetched_def fetched_state_def enabled_labels_def consts_defs)
  have h5: "api fake_env (Get InCluster SecretKind (fst foo_req) (snd foo_req @ ''-admin-kubeconfig''))
              (world (snd ?run)) = (Inl (Failure ''timeout''), ?w)"
    unfolding fake_local_registration(3) [OF w]
    by (simp add: fake_env_def foo_req_def)
  have f: "Reconcile fake_env foo_req (init_state ?w) = reconcileFetched fake_env foo_req foo_fetched ?s"
    by (rule fake_fetch) (simp_all add: enabled_labels_def fake_world_def)
  show ?thesis
    unfolding f C5_kubeconfig_fetch_failure [OF h1 fake_allocated h3 h4 h5]
    by (simp add: issued_def foo_req_def)
qed

text \<open>The kubeconfig secret is absent: the fetch fails with not-found, and the
  reconcile returns no error.\<close>

theorem C5_kubeconfig_absent_counterexample:
  "fst (fake_api (Get InCluster SecretKind ''clusters'' ''foo-admin-kubeconfig'')
          ((fake_world enabled_labels)\<lparr>fk_kubeconfig := Inl NotFound\<rparr>)) = Inl NotFound
   \<and> fst (Reconcile fake_env foo_req
          (init_state ((fake_world enabled_labels)\<lparr>fk_kubeconfig := Inl NotFound\<rparr>))) = None
   \<and> last (trace (snd (Reconcile fake_env foo_req
          (init_state ((fake_world enabled_labels)\<lparr>fk_kubeconfig := Inl NotFound\<rparr>)))))
       = Get InCluster SecretKind ''clusters'' ''foo-admin-kubeconfig''"
  by (simp add: run_defs)

text \<open>
  C6. The readiness check of the bootstrap. Once the service account, the
  role binding and the token secret are ensured, \<^verbatim>\<open>setupClusterConfig\<close> fetches
  the token secret by its derived name. When that fetch gives a secret, it
  returns an error if and only if the token or the CA certificate of the
  fetched secret is empty, the error is then the one of the empty field, and
  the fetch is its last call: it does not wait or fetch again.
\<close>

theorem C6_bootstrap_readiness:
  assumes "ensureIdentityObjects env clnt s = (Inr tok, s1)"
    and "api env (Get clnt SecretKind hostedClusterServiceAccountNamespace
                 (hostedClusterServiceAccountName @ ''-token'')) (world s1) = (Inr sec, w')"
  shows "(isl (fst (setupClusterConfig env clnt server name hc s))
            \<longleftrightarrow> bytes_at (Data sec) ''token'' = [] \<or> bytes_at (Data sec) ''ca.crt'' = [])
    \<and> (isl (fst (setupClusterConfig env clnt server name hc s)) \<longrightarrow>
          fst (setupClusterConfig env clnt server name hc s) = Inl (Errorf ''token not found'')
        \<or> fst (setupClusterConfig env clnt server name hc s) = Inl (Errorf ''ca.crt not found''))
    \<and> snd (setupClusterConfig env clnt server name hc s) =
         s1\<lparr>world := w',
            trace := trace s1 @ [Get clnt SecretKind hostedClusterServiceAccountNamespace
                                  (hostedClusterServiceAccountName @ ''-token'')]\<rparr>"
  by (simp add: setupClusterConfig_fetched [OF assms])

theorem C6_bootstrap_readiness_witness:
  "fst (setupClusterConfig fake_env InCluster ''https://kubernetes.default.svc''
          ''in-cluster-local'' None (init_state (token_missing Map.empty)))
     = Inl (Errorf ''token not found'')
   \<and> snd (setupClusterConfig fake_env InCluster ''https://kubernetes.default.svc''
          ''in-cluster-local'' None (init_state (token_missing Map.empty)))
     = (snd (ensureIdentityObjects fake_env InCluster (init_state (token_missing Map.empty))))
         \<lparr>trace := trace (snd (ensureIdentityObjects fake_env InCluster (init_state (token_missing Map.empty))))
                    @ [Get InCluster SecretKind ''kube-system'' ''hyper-ops-admin-token'']\<rparr>
   \<and> \<not> isl (fst (setupClusterConfig fake_env InCluster ''https://kubernetes.default.svc''
          ''in-cluster-local'' None (init_state (fake_world Map.empty))))"
  using
    C6_bootstrap_readiness [where env = fake_env and clnt = InCluster
      and s = "init_state (token_missing Map.empty)"
      and tok = "(new_object SecretKind ''kube-system'' ''hyper-ops-admin-token'')
                   \<lparr>Data := [''ca.crt'' \<mapsto> ''Man'']\<rparr>"
      and ?s1.0 = "snd (ensureIdentityObjects fake_env InCluster (init_state (token_missing Map.empty)))"
      and sec = "(new_object SecretKind ''kube-system'' ''hyper-ops-admin-token'')
                   \<lparr>Data := [''ca.crt'' \<mapsto> ''Man'']\<rparr>"
      and w' = "token_missing Map.empty"
      and server = "''https://kubernetes.default.svc''" and name = "''in-cluster-local''"
      and hc = None]
    C6_bootstrap_readiness [where env = fake_env and clnt = InCluster
      and s = "init_state (fake_world Map.empty)"
      and tok = "(new_object SecretKind ''kube-system'' ''hyper-ops-admin-token'')
                   \<lparr>Data := [''token'' \<mapsto> ''tok'', ''ca.crt'' \<mapsto> ''Man'']\<rparr>"
      and ?s1.0 = "snd (ensureIdentityObjects fake_env InCluster (init_state (fake_world Map.empty)))"
      and sec = "(new_object SecretKind ''kube-system'' ''hyper-ops-admin-token'')
                   \<lparr>Data := [''token'' \<mapsto> ''tok'', ''ca.crt'' \<mapsto> ''Man'']\<rparr>"
      and w' = "fake_world Map.empty"
      and server = "''https://kubernetes.default.svc''" and name = "''in-cluster-local''"
      and hc = None]
  by (simp add: token_missing_def fake_defs upsert_defs consts_defs ensureIdentityObjects_def
      setupClusterConfig_def eval_nat_numeral
      bytes_at_def)

text \<open>
  C7. Deletion. For a fetched hosted cluster with a deletion timestamp, the
  reconcile makes exactly one call: the delete, through the controller's own
  client, of the secret with the name of the request in the namespace
  \<^verbatim>\<open>gitOpsNamespace\<close> holds. It returns success when the delete succeeds or
  reports not-found, and the error of the delete otherwise. Nothing else
  changes: the variables of the reconciler are as they were.
\<close>

theorem C7_deletion:
  assumes "hc_Deleting hc"
    and "api env (Delete InCluster (new_object SecretKind (gitOpsNamespace s) (snd req))) (world s)
           = (r, w')"
  shows "reconcileFetched env req hc s =
           (case r of Inl e \<Rightarrow> if e = NotFound then None else Some e | Inr ob \<Rightarrow> None,
            s\<lparr>world := w',
              trace := trace s
                @ [Delete InCluster (new_object SecretKind (gitOpsNamespace s) (snd req))]\<rparr>)"
  using assms(1) invoke_world [OF assms(2)]
  by (simp add: reconcileFetched_def deleteClusterSecret_def IgnoreNotFound_def split: sum.splits)

text \<open>The secret is already gone: the delete reports not-found.\<close>

theorem C7_deletion_witness:
  "Reconcile fake_env foo_req (init_state (deleting_world (Some NotFound)))
     = (None,
        (init_state (deleting_world (Some NotFound)))
          \<lparr>trace := [Get InCluster HostedClusterKind ''clusters'' ''foo'',
                     Delete InCluster (new_object SecretKind ''openshift-gitops'' ''foo'')],
           heap := (\<lambda>_. Map.empty)(0 := enabled_labels), nxt := 1\<rparr>)"
proof -
  let ?w = "deleting_world (Some NotFound)"
  let ?s = "(fetched_state enabled_labels ?w)"
  let ?hc = "foo_fetched\<lparr>hc_Deleting := True\<rparr>"
  have h1: "hc_Deleting ?hc" by simp
  have h2: "api fake_env (Delete InCluster (new_object SecretKind (gitOpsNamespace ?s) (snd foo_req)))
              (world ?s) = (Inl NotFound, ?w)"
    by (simp add: fake_env_def fetched_state_def deleting_world_def)
  have f: "Reconcile fake_env foo_req (init_state ?w) = reconcileFetched fake_env foo_req ?hc ?s"
    by (simp add: Reconcile_def invoke_def decodeHostedCluster_def alloc_def fake_defs new_object_def)
  show ?thesis
    unfolding f C7_deletion [OF h1 h2]
    by (simp add: fetched_state_def init_state_def foo_req_def gitOpsNamespace_default_def)
qed

text \<open>The reconcile of a hosted cluster that is being deleted does not always
  return success: a delete that fails with another error than not-found is
  returned.\<close>

theorem C7_deletion_counterexample:
  "Reconcile fake_env foo_req (init_state (deleting_world (Some (Failure ''forbidden''))))
     = (Some (Failure ''forbidden''),
        (init_state (deleting_world (Some (Failure ''forbidden''))))
          \<lparr>trace := [Get InCluster HostedClusterKind ''clusters'' ''foo'',
                     Delete InCluster (new_object SecretKind ''openshift-gitops'' ''foo'')],
           heap := (\<lambda>_. Map.empty)(0 := enabled_labels), nxt := 1\<rparr>)"
  by (simp add: run_defs)

text \<open>
  C8. The data of the cluster secret. \<^verbatim>\<open>setupClusterConfig\<close>, when the fetched
  token secret has a token and a CA certificate, returns the cluster with the
  given name and server, the token bytes as bearer token and the base64
  encoding (URL-safe alphabet, padded) of the CA certificate as CA data. Every
  secret \<^verbatim>\<open>createArgoCDClusterSecret\<close> hands to a create or an update has
  exactly the three data fields \<^verbatim>\<open>name\<close>, \<^verbatim>\<open>server\<close> and \<^verbatim>\<open>config\<close>: the name and the
  server of the cluster, and the encoding of the JSON object with the member
  \<^verbatim>\<open>bearerToken\<close> and, under \<^verbatim>\<open>tlsClientConfig\<close>, the member \<^verbatim>\<open>caData\<close>.
\<close>

theorem C8_secret_data:
  "(ensureIdentityObjects env clnt s0 = (Inr tok, s1)
      \<and> api env (Get clnt SecretKind hostedClusterServiceAccountNamespace
                 (hostedClusterServiceAccountName @ ''-token'')) (world s1) = (Inr sec, w')
      \<and> bytes_at (Data sec) ''token'' \<noteq> [] \<and> bytes_at (Data sec) ''ca.crt'' \<noteq> []
    \<longrightarrow> fst (setupClusterConfig env clnt server name hc s0) =
          Inr \<lparr>Cluster_Name = name, Cluster_Server = server,
                Cluster_Config =
                  \<lparr>BearerToken = bytes_at (Data sec) ''token'',
                   TLSClientConfig = \<lparr>CAData = EncodeToString (bytes_at (Data sec) ''ca.crt'')\<rparr>\<rparr>,
                Cluster_HostedCluster = hc\<rparr>)
   \<and> (createArgoCDClusterSecret env (Some labels) cluster s = (res, s')
      \<and> (Create c ob \<in> set (issued s s') \<or> Update c ob \<in> set (issued s s'))
    \<longrightarrow> Data ob =
          [''name'' \<mapsto> Cluster_Name cluster,
           ''server'' \<mapsto> Cluster_Server cluster,
           ''config'' \<mapsto> jsonEncode env
              (JObject [(''bearerToken'', JString (BearerToken (Cluster_Config cluster))),
                        (''tlsClientConfig'',
                         JObject [(''caData'',
                                   JString (CAData (TLSClientConfig (Cluster_Config cluster))))])])]
        \<and> dom (Data ob) = {''name'', ''server'', ''config''})"
proof (intro conjI impI)
  assume "ensureIdentityObjects env clnt s0 = (Inr tok, s1)
      \<and> api env (Get clnt SecretKind hostedClusterServiceAccountNamespace
                 (hostedClusterServiceAccountName @ ''-token'')) (world s1) = (Inr sec, w')
      \<and> bytes_at (Data sec) ''token'' \<noteq> [] \<and> bytes_at (Data sec) ''ca.crt'' \<noteq> []"
  then show "fst (setupClusterConfig env clnt server name hc s0) =
          Inr \<lparr>Cluster_Name = name, Cluster_Server = server,
                Cluster_Config =
                  \<lparr>BearerToken = bytes_at (Data sec) ''token'',
                   TLSClientConfig = \<lparr>CAData = EncodeToString (bytes_at (Data sec) ''ca.crt'')\<rparr>\<rparr>,
                Cluster_HostedCluster = hc\<rparr>"
    by (simp add: setupClusterConfig_fetched)
next
  assume h: "createArgoCDClusterSecret env (Some labels) cluster s = (res, s')
      \<and> (Create c ob \<in> set (issued s s') \<or> Update c ob \<in> set (issued s s'))"
  let ?f = "argocdMutate ((heap s labels)(argoCDSecretTypeLabel \<mapsto> argoCDSecretTypeCluster))
              cluster (jsonEncode env (ClusterConfig_json (Cluster_Config cluster)))"
  let ?P = "upsert_call InCluster SecretKind (gitOpsNamespace s) (Cluster_Name cluster) ?f"
  from h have "calls ?P s s'"
    using createArgoCDClusterSecret_frame by blast
  with h have "?P (Create c ob) \<or> ?P (Update c ob)"
    by (auto dest: calls_issued)
  then have "ob \<in> range ?f" by auto
  then have d: "Data ob = [''name'' \<mapsto> Cluster_Name cluster,
           ''server'' \<mapsto> Cluster_Server cluster,
           ''config'' \<mapsto> jsonEncode env (ClusterConfig_json (Cluster_Config cluster))]"
    by (auto simp: argocdMutate_def)
  then show "Data ob =
          [''name'' \<mapsto> Cluster_Name cluster,
           ''server'' \<mapsto> Cluster_Server cluster,
           ''config'' \<mapsto> jsonEncode env
              (JObject [(''bearerToken'', JString (BearerToken (Cluster_Config cluster))),
                        (''tlsClientConfig'',
                         JObject [(''caData'',
                                   JString (CAData (TLSClientConfig (Cluster_Config cluster))))])])]"
    by (simp add: ClusterConfig_json_def)
  from d show "dom (Data ob) = {''name'', ''server'', ''config''}"
    by auto
qed

theorem C8_secret_data_witness:
  "fst (setupClusterConfig fake_env InCluster ''https://kubernetes.default.svc''
          ''in-cluster-local'' None (init_state (fake_world Map.empty))) = Inr local_cluster
   \<and> issued local_state (snd (createArgoCDClusterSecret fake_env (Some 0) local_cluster local_state))
       = [Get InCluster SecretKind ''openshift-gitops'' ''in-cluster-local'',
          Create InCluster local_secret]
   \<and> Data local_secret =
          [''name'' \<mapsto> ''in-cluster-local'',
           ''server'' \<mapsto> ''https://kubernetes.default.svc'',
           ''config'' \<mapsto> ''{bearerToken:tok,tlsClientConfig:{caData:TWFu}}'']
   \<and> dom (Data local_secret) = {''name'', ''server'', ''config''}"
proof -
  let ?s0 = "init_state (fake_world Map.empty)"
  let ?tok = "(new_object SecretKind ''kube-system'' ''hyper-ops-admin-token'')
                \<lparr>Data := [''token'' \<mapsto> ''tok'', ''ca.crt'' \<mapsto> ''Man'']\<rparr>"
  let ?s1 = "snd (ensureIdentityObjects fake_env InCluster ?s0)"
  let ?run = "createArgoCDClusterSecret fake_env (Some 0) local_cluster local_state"
  note th = C8_secret_data [where env = fake_env and clnt = InCluster and ?s0.0 = ?s0
        and tok = ?tok and ?s1.0 = ?s1 and sec = ?tok and w' = "fake_world Map.empty"
        and server = "''https://kubernetes.default.svc''" and name = "''in-cluster-local''"
        and hc = None and labels = 0 and cluster = local_cluster and s = local_state
        and res = "fst ?run" and s' = "snd ?run" and c = InCluster and ob = local_secret]
  have a: "ensureIdentityObjects fake_env InCluster ?s0 = (Inr ?tok, ?s1)"
    by (simp add: prod_eq_iff fake_ensure)
  have b: "api fake_env (Get InCluster SecretKind hostedClusterServiceAccountNamespace
                 (hostedClusterServiceAccountName @ ''-token'')) (world ?s1)
             = (Inr ?tok, fake_world Map.empty)"
    unfolding fake_ensure(2) by (simp add: fake_env_def fake_world_def consts_defs)
  have t: "bytes_at (Data ?tok) ''token'' \<noteq> [] \<and> bytes_at (Data ?tok) ''ca.crt'' \<noteq> []"
    by (simp add: bytes_at_def)
  have w: "?run = (fst ?run, snd ?run)
      \<and> (Create InCluster local_secret \<in> set (issued local_state (snd ?run))
          \<or> Update InCluster local_secret \<in> set (issued local_state (snd ?run)))"
    by (simp add: fake_local_secret)
  from th a b t have 1: "fst (setupClusterConfig fake_env InCluster ''https://kubernetes.default.svc''
          ''in-cluster-local'' None ?s0) =
          Inr \<lparr>Cluster_Name = ''in-cluster-local'', Cluster_Server = ''https://kubernetes.default.svc'',
                Cluster_Config =
                  \<lparr>BearerToken = bytes_at (Data ?tok) ''token'',
                   TLSClientConfig = \<lparr>CAData = EncodeToString (bytes_at (Data ?tok) ''ca.crt'')\<rparr>\<rparr>,
                Cluster_HostedCluster = None\<rparr>"
    by blast
  from th w have 2: "Data local_secret =
          [''name'' \<mapsto> Cluster_Name local_cluster,
           ''server'' \<mapsto> Cluster_Server local_cluster,
           ''config'' \<mapsto> jsonEncode fake_env
              (JObject [(''bearerToken'', JString (BearerToken (Cluster_Config local_cluster))),
                        (''tlsClientConfig'',
                         JObject [(''caData'',
                                   JString (CAData (TLSClientConfig (Cluster_Config local_cluster))))])])]
        \<and> dom (Data local_secret) = {''name'', ''server'', ''config''}"
    by blast
  have 3: "fst (setupClusterConfig fake_env InCluster ''https://kubernetes.default.svc''
          ''in-cluster-local'' None ?s0) = Inr local_cluster"
    unfolding 1 by (simp add: bytes_at_def EncodeToString_Man local_cluster_def)
  have 4: "Data local_secret =
          [''name'' \<mapsto> ''in-cluster-local'',
           ''server'' \<mapsto> ''https://kubernetes.default.svc'',
           ''config'' \<mapsto> ''{bearerToken:tok,tlsClientConfig:{caData:TWFu}}'']"
    using 2 by (simp add: local_cluster_def fake_env_def fake_json_def)
  from 2 3 4 fake_local_secret show ?thesis
    by blast
qed

text \<open>
  C9. The hosted cluster is not written. Of the calls a reconcile makes, the
  only one about a hosted cluster is the fetch at its start: no create, update
  or delete of a hosted cluster is ever made.
\<close>

theorem C9_hosted_cluster_not_written:
  assumes "Reconcile env req s = (res, s')" and "x \<in> set (issued s s')"
    and "call_kind x = HostedClusterKind"
  shows "x = Get InCluster HostedClusterKind (fst req) (snd req)"
proof -
  let ?get = "Get InCluster HostedClusterKind (fst req) (snd req)"
  obtain r s1 where 1: "invoke env ?get s = (r, s1)"
    by force
  let ?P = "\<lambda>x. call_kind x = HostedClusterKind \<longrightarrow> x = ?get"
  have c1: "calls ?P s s1"
    using 1 by (auto intro: invoke_calls)
  have "calls ?P s s'"
  proof (cases r)
    case (Inl e)
    with assms(1) 1 have "s' = s1" by (simp add: Reconcile_def)
    with c1 show ?thesis by simp
  next
    case (Inr ob)
    obtain hc s2 where 2: "decodeHostedCluster ob s1 = (hc, s2)"
      by force
    then have t: "trace s2 = trace s1"
      by (auto simp: decodeHostedCluster_def alloc_def split: if_splits)
    from assms(1) 1 Inr 2 have "reconcileFetched env req hc s2 = (res, s')"
      by (simp add: Reconcile_def)
    from reconcileFetched_frame [OF this] have "calls ?P s2 s'"
      by (auto elim!: calls_mono)
    then have "calls ?P s1 s'"
      using t by (simp add: calls_def)
    with c1 show ?thesis by (blast intro: calls_trans)
  qed
  with assms(2,3) show ?thesis
    by (auto dest: calls_issued)
qed

text \<open>
  The Go value of the fetched hosted cluster does not keep its labels: the
  label filter works on the label map of the fetched object itself. With the
  labels \<^verbatim>\<open>enabled=true\<close> and \<^verbatim>\<open>team=blue\<close>, after the reconcile that map has no
  key \<^verbatim>\<open>team\<close> and has the type label \<^verbatim>\<open>hosted\<close>.
\<close>

theorem C9_hosted_cluster_labels_counterexample:
  "decodeHostedCluster (foo_hc team_labels) (init_state (fake_world team_labels))
     = (foo_fetched_at 0,
        (init_state (fake_world team_labels))\<lparr>heap := (\<lambda>_. Map.empty)(0 := team_labels), nxt := 1\<rparr>)
   \<and> team_labels ''team'' = Some ''blue''
   \<and> labels_of (foo_fetched_at 0)
        (snd (Reconcile fake_env foo_req (init_state (fake_world team_labels)))) ''team'' = None
   \<and> labels_of (foo_fetched_at 0)
        (snd (Reconcile fake_env foo_req (init_state (fake_world team_labels))))
        ''hyper-ops.cloudmonkey.org/type'' = Some ''hosted''"
proof -
  have ne: "team_labels \<noteq> Map.empty"
    by (simp add: team_labels_def)
  have "Reconcile fake_env foo_req (init_state (fake_world team_labels)) =
     (None,
      \<lparr>world = fake_world team_labels,
       trace = Get InCluster HostedClusterKind ''clusters'' ''foo''
                 # local_calls ''openshift-gitops'' @ hosted_calls ''openshift-gitops'' team_labels,
       gitOpsNamespace = ''openshift-gitops'',
       heap = (\<lambda>_. Map.empty)(0 := hosted_labels team_labels, 1 := local_labels),
       nxt = 2\<rparr>)"
    by (rule fake_reconcile_init) (simp_all add: team_labels_def consts_defs)
  moreover have "hosted_labels team_labels ''team'' = None"
    "hosted_labels team_labels ''hyper-ops.cloudmonkey.org/type'' = Some ''hosted''"
    by (simp_all add: hosted_labels_def keepHyperOpsLabels_def HasPrefix_def consts_defs
        team_labels_def)
  moreover have "decodeHostedCluster (foo_hc team_labels) (init_state (fake_world team_labels))
     = (foo_fetched_at 0,
        (init_state (fake_world team_labels))\<lparr>heap := (\<lambda>_. Map.empty)(0 := team_labels), nxt := 1\<rparr>)"
    using ne
    by (simp add: decodeHostedCluster_def alloc_def foo_hc_def foo_fetched_at_def new_object_def
        init_state_def)
  moreover have "team_labels ''team'' = Some ''blue''"
    by (simp add: team_labels_def)
  ultimately show ?thesis
    by (simp add: labels_of_def foo_fetched_at_simps)
qed

text \<open>The fetch is among the calls of a reconcile of \<^verbatim>\<open>foo\<close>.\<close>

theorem C9_hosted_cluster_not_written_witness:
  "Get InCluster HostedClusterKind ''clusters'' ''foo''
     \<in> set (issued (init_state (fake_world team_labels))
               (snd (Reconcile fake_env foo_req (init_state (fake_world team_labels)))))
   \<and> call_kind (Get InCluster HostedClusterKind ''clusters'' ''foo'') = HostedClusterKind
   \<and> Get InCluster HostedClusterKind ''clusters'' ''foo''
       = Get InCluster HostedClusterKind (fst foo_req) (snd foo_req)"
proof -
  let ?s = "init_state (fake_world team_labels)"
  let ?run = "Reconcile fake_env foo_req ?s"
  let ?get = "Get InCluster HostedClusterKind ''clusters'' ''foo''"
  have r: "?run =
     (None,
      \<lparr>world = fake_world team_labels,
       trace = ?get # local_calls ''openshift-gitops'' @ hosted_calls ''openshift-gitops'' team_labels,
       gitOpsNamespace = ''openshift-gitops'',
       heap = (\<lambda>_. Map.empty)(0 := hosted_labels team_labels, 1 := local_labels),
       nxt = 2\<rparr>)"
    by (rule fake_reconcile_init) (simp_all add: team_labels_def consts_defs)
  have m: "?get \<in> set (issued ?s (snd ?run))"
    unfolding r by (simp add: issued_def init_state_def)
  have p: "?run = (fst ?run, snd ?run)"
    by simp
  have k: "call_kind ?get = HostedClusterKind"
    by simp
  from C9_hosted_cluster_not_written [OF p m k] m k show ?thesis
    by blast
qed

text \<open>
  C10. \<^verbatim>\<open>getServerFromKubeConfig\<close> reads the first cluster entry of the parsed
  kubeconfig without a check of the length: for a parsed kubeconfig with a
  cluster entry it returns the server of the first entry and no error, and for
  one without cluster entries the index is out of range, which is a panic and
  not an error the function returns.
\<close>

theorem C10_server_from_kubeconfig:
  "yamlUnmarshal env (bytes_at (Data kubeConfigSecret) ''kubeconfig'') = Inr kubeconfig \<Longrightarrow>
   (Clusters kubeconfig \<noteq> [] \<longrightarrow>
      getServerFromKubeConfig env kubeConfigSecret = Inr (nc_Server (hd (Clusters kubeconfig))))
   \<and> (Clusters kubeconfig = [] \<longrightarrow>
      getServerFromKubeConfig env kubeConfigSecret
        = Inl (Panic ''index out of range [0] with length 0''))"
  by (auto simp: getServerFromKubeConfig_def split: list.splits)

theorem C10_server_from_kubeconfig_witness:
  "getServerFromKubeConfig fake_env (foo_kubeconfig ''kc'') = Inr ''https://foo:6443''
   \<and> getServerFromKubeConfig fake_env (foo_kubeconfig ''none'')
       = Inl (Panic ''index out of range [0] with length 0'')"
  using
    C10_server_from_kubeconfig [of fake_env "foo_kubeconfig ''kc''"
      "\<lparr>Clusters = [\<lparr>nc_Name = ''foo'', nc_Server = ''https://foo:6443''\<rparr>]\<rparr>"]
    C10_server_from_kubeconfig [of fake_env "foo_kubeconfig ''none''" "\<lparr>Clusters = []\<rparr>"]
  by (simp add: fake_defs bytes_at_def new_object_def)

end
